theory Spec2Isabelle
  imports Main "HOL-Library.Word"
begin

unbundle bit_operations_syntax

section \<open>The I2C master/slave example (main.c)\<close>

text \<open>
  The program has three entry points: \<open>main\<close>, the timer interrupt handler
  \<open>SysTick_Handler\<close> (the periodic command sender) and the slave receive interrupt handler
  \<open>I2C_SLAVE_RECEIVE_EVENT_HANDLER\<close> (the command receiver). All of them talk to the
  hardware through the vendor peripheral library, which is not part of main.c: the library
  is a parameter of the model, and every call into it is written to a log.
\<close>

subsection \<open>Defines\<close>

definition TICKS_PER_SECOND :: "32 word" where
  "TICKS_PER_SECOND = 1000"

definition I2C_MASTER_SEND_TASK_MS :: "32 word" where
  "I2C_MASTER_SEND_TASK_MS = 500"

definition CMD_LED_HIGH :: "8 word" where
  "CMD_LED_HIGH = 0xaa"

definition CMD_LED_LOW :: "8 word" where
  "CMD_LED_LOW = 0x55"

definition I2C_RECEIVE_EVENT_PRIORITY :: "32 word" where
  "I2C_RECEIVE_EVENT_PRIORITY = 63"

subsection \<open>The peripheral library as a parameter\<close>

datatype usic_channel = I2C_MASTER_HW | I2C_SLAVE_HW

datatype XMC_I2C_CH_CMD = XMC_I2C_CH_CMD_WRITE | XMC_I2C_CH_CMD_READ

text \<open>
  \<open>'hw\<close> is the state of the serial peripherals and of the bus between them. Reading a
  register returns the value read and the next hardware state: time passes between two
  reads, so two polls of the same flag need not agree. The slave address and the mask of
  the acknowledgement flag are constants of the board configuration and of the library.
\<close>

record 'hw xmc_lib =
  XMC_I2C_CH_MasterStart :: "usic_channel \<Rightarrow> 16 word \<Rightarrow> XMC_I2C_CH_CMD \<Rightarrow> 'hw \<Rightarrow> 'hw"
  XMC_I2C_CH_GetStatusFlag :: "usic_channel \<Rightarrow> 'hw \<Rightarrow> 32 word \<times> 'hw"
  XMC_I2C_CH_ClearStatusFlag :: "usic_channel \<Rightarrow> 32 word \<Rightarrow> 'hw \<Rightarrow> 'hw"
  XMC_I2C_CH_MasterTransmit :: "usic_channel \<Rightarrow> 8 word \<Rightarrow> 'hw \<Rightarrow> 'hw"
  XMC_USIC_CH_TXFIFO_IsEmpty :: "usic_channel \<Rightarrow> 'hw \<Rightarrow> bool \<times> 'hw"
  XMC_I2C_CH_MasterStop :: "usic_channel \<Rightarrow> 'hw \<Rightarrow> 'hw"
  XMC_I2C_CH_GetReceivedData :: "usic_channel \<Rightarrow> 'hw \<Rightarrow> 8 word \<times> 'hw"
  I2C_SLAVE_SLAVE_ADDRESS :: "16 word"
  XMC_I2C_CH_STATUS_FLAG_ACK_RECEIVED :: "32 word"

text \<open>The log of library calls, in program order; a read is logged with its value.\<close>

datatype hal_call =
    MasterStart usic_channel "16 word" XMC_I2C_CH_CMD
  | GetStatusFlag usic_channel "32 word"
  | ClearStatusFlag usic_channel "32 word"
  | MasterTransmit usic_channel "8 word"
  | TXFIFO_IsEmpty usic_channel bool
  | MasterStop usic_channel
  | GetReceivedData usic_channel "8 word"
  | SetOutputHigh
  | SetOutputLow

subsection \<open>Program state\<close>

text \<open>
  \<open>ticks\<close> is the file-scope variable of line 69. \<open>tx_master_send\<close> and
  \<open>SysTick_ticks\<close> are the two function-local statics of \<open>SysTick_Handler\<close>
  (lines 89 and 90; the second is called \<open>ticks\<close> in the source and shadows the
  file-scope one). \<open>led_pin\<close> is the output level of the user LED pin.
\<close>

record 'hw world =
  ticks :: "32 word"
  tx_master_send :: "8 word"
  SysTick_ticks :: "32 word"
  usic :: 'hw
  led_pin :: bool
  calls :: "hal_call list"

text \<open>The static initialisers; the hardware state and the pin level at start are free.\<close>

definition power_on :: "'hw \<Rightarrow> bool \<Rightarrow> 'hw world" where
  "power_on h l =
     \<lparr>ticks = 0, tx_master_send = CMD_LED_LOW, SysTick_ticks = 0,
      usic = h, led_pin = l, calls = []\<rparr>"

subsection \<open>Library calls, logged\<close>

definition call_MasterStart ::
  "'hw xmc_lib \<Rightarrow> usic_channel \<Rightarrow> 16 word \<Rightarrow> XMC_I2C_CH_CMD \<Rightarrow> 'hw world \<Rightarrow> 'hw world" where
  "call_MasterStart L ch a c w =
     w\<lparr>usic := XMC_I2C_CH_MasterStart L ch a c (usic w),
       calls := calls w @ [MasterStart ch a c]\<rparr>"

definition call_GetStatusFlag ::
  "'hw xmc_lib \<Rightarrow> usic_channel \<Rightarrow> 'hw world \<Rightarrow> 32 word \<times> 'hw world" where
  "call_GetStatusFlag L ch w =
     (case XMC_I2C_CH_GetStatusFlag L ch (usic w) of
        (v, h) \<Rightarrow> (v, w\<lparr>usic := h, calls := calls w @ [GetStatusFlag ch v]\<rparr>))"

definition call_ClearStatusFlag ::
  "'hw xmc_lib \<Rightarrow> usic_channel \<Rightarrow> 32 word \<Rightarrow> 'hw world \<Rightarrow> 'hw world" where
  "call_ClearStatusFlag L ch f w =
     w\<lparr>usic := XMC_I2C_CH_ClearStatusFlag L ch f (usic w),
       calls := calls w @ [ClearStatusFlag ch f]\<rparr>"

definition call_MasterTransmit ::
  "'hw xmc_lib \<Rightarrow> usic_channel \<Rightarrow> 8 word \<Rightarrow> 'hw world \<Rightarrow> 'hw world" where
  "call_MasterTransmit L ch d w =
     w\<lparr>usic := XMC_I2C_CH_MasterTransmit L ch d (usic w),
       calls := calls w @ [MasterTransmit ch d]\<rparr>"

definition call_TXFIFO_IsEmpty ::
  "'hw xmc_lib \<Rightarrow> usic_channel \<Rightarrow> 'hw world \<Rightarrow> bool \<times> 'hw world" where
  "call_TXFIFO_IsEmpty L ch w =
     (case XMC_USIC_CH_TXFIFO_IsEmpty L ch (usic w) of
        (e, h) \<Rightarrow> (e, w\<lparr>usic := h, calls := calls w @ [TXFIFO_IsEmpty ch e]\<rparr>))"

definition call_MasterStop :: "'hw xmc_lib \<Rightarrow> usic_channel \<Rightarrow> 'hw world \<Rightarrow> 'hw world" where
  "call_MasterStop L ch w =
     w\<lparr>usic := XMC_I2C_CH_MasterStop L ch (usic w), calls := calls w @ [MasterStop ch]\<rparr>"

definition call_GetReceivedData ::
  "'hw xmc_lib \<Rightarrow> usic_channel \<Rightarrow> 'hw world \<Rightarrow> 8 word \<times> 'hw world" where
  "call_GetReceivedData L ch w =
     (case XMC_I2C_CH_GetReceivedData L ch (usic w) of
        (d, h) \<Rightarrow> (d, w\<lparr>usic := h, calls := calls w @ [GetReceivedData ch d]\<rparr>))"

text \<open>
  Modelled from the spec: \<open>XMC_GPIO_SetOutputHigh\<close> and \<open>XMC_GPIO_SetOutputLow\<close> belong to
  the vendor library and are not in main.c. Section 4.2 of the specification says that
  the first drives the designated pin (\<open>CYBSP_USER_LED_PORT\<close>, \<open>CYBSP_USER_LED_PIN\<close>) to
  logic-high and the second to logic-low.
\<close>

definition XMC_GPIO_SetOutputHigh :: "'hw world \<Rightarrow> 'hw world" where
  "XMC_GPIO_SetOutputHigh w = w\<lparr>led_pin := True, calls := calls w @ [SetOutputHigh]\<rparr>"

definition XMC_GPIO_SetOutputLow :: "'hw world \<Rightarrow> 'hw world" where
  "XMC_GPIO_SetOutputLow w = w\<lparr>led_pin := False, calls := calls w @ [SetOutputLow]\<rparr>"

subsection \<open>SysTick_Handler\<close>

text \<open>
  A \<open>while\<close> loop with an empty body (lines 114, 125 and 133): the condition is evaluated,
  which reads the hardware, until it is false. The loop has no bound; a run that never
  leaves it is the value \<open>None\<close>.
\<close>

partial_function (option) busy_wait :: "('s \<Rightarrow> bool \<times> 's) \<Rightarrow> 's \<Rightarrow> 's option" where
  "busy_wait c s = (case c s of (b, s') \<Rightarrow> if b then busy_wait c s' else Some s')"

declare busy_wait.simps [code]

text \<open>
  The condition of lines 114 and 125:
  \<open>(XMC_I2C_CH_GetStatusFlag(I2C_MASTER_HW) & XMC_I2C_CH_STATUS_FLAG_ACK_RECEIVED) == 0U\<close>.
\<close>

definition ack_not_received :: "'hw xmc_lib \<Rightarrow> 'hw world \<Rightarrow> bool \<times> 'hw world" where
  "ack_not_received L w =
     (case call_GetStatusFlag L I2C_MASTER_HW w of
        (v, w') \<Rightarrow> (v AND XMC_I2C_CH_STATUS_FLAG_ACK_RECEIVED L = 0, w'))"

text \<open>The condition of line 133: \<open>!XMC_USIC_CH_TXFIFO_IsEmpty(I2C_MASTER_HW)\<close>.\<close>

definition txfifo_not_empty :: "'hw xmc_lib \<Rightarrow> 'hw world \<Rightarrow> bool \<times> 'hw world" where
  "txfifo_not_empty L w =
     (case call_TXFIFO_IsEmpty L I2C_MASTER_HW w of (e, w') \<Rightarrow> (\<not> e, w'))"

text \<open>The \<open>switch\<close> of lines 96 to 108; it has no default case.\<close>

definition toggle_command :: "8 word \<Rightarrow> 8 word" where
  "toggle_command c =
     (if c = CMD_LED_LOW then CMD_LED_HIGH
      else if c = CMD_LED_HIGH then CMD_LED_LOW
      else c)"

text \<open>
  The body of the \<open>if\<close>, lines 95 to 142, cut at its three loops into four straight-line
  pieces: lines 96 to 111 (toggle the command, START), lines 119 to 122 (clear the flag,
  transmit), line 130 (clear the flag) and lines 139 to 142 (STOP, reset the counter).
\<close>

definition send_start :: "'hw xmc_lib \<Rightarrow> 'hw world \<Rightarrow> 'hw world" where
  "send_start L w =
     call_MasterStart L I2C_MASTER_HW (I2C_SLAVE_SLAVE_ADDRESS L) XMC_I2C_CH_CMD_WRITE
       (w\<lparr>tx_master_send := toggle_command (tx_master_send w)\<rparr>)"

definition send_data :: "'hw xmc_lib \<Rightarrow> 'hw world \<Rightarrow> 'hw world" where
  "send_data L w =
     (let w' = call_ClearStatusFlag L I2C_MASTER_HW (XMC_I2C_CH_STATUS_FLAG_ACK_RECEIVED L) w
      in call_MasterTransmit L I2C_MASTER_HW (tx_master_send w') w')"

definition send_flush :: "'hw xmc_lib \<Rightarrow> 'hw world \<Rightarrow> 'hw world" where
  "send_flush L w =
     call_ClearStatusFlag L I2C_MASTER_HW (XMC_I2C_CH_STATUS_FLAG_ACK_RECEIVED L) w"

definition send_stop :: "'hw xmc_lib \<Rightarrow> 'hw world \<Rightarrow> 'hw world" where
  "send_stop L w = (call_MasterStop L I2C_MASTER_HW w)\<lparr>SysTick_ticks := 0\<rparr>"

definition send_task :: "'hw xmc_lib \<Rightarrow> 'hw world \<Rightarrow> 'hw world option" where
  "send_task L w0 =
     (case busy_wait (ack_not_received L) (send_start L w0) of
        None \<Rightarrow> None
      | Some w1 \<Rightarrow>
         (case busy_wait (ack_not_received L) (send_data L w1) of
            None \<Rightarrow> None
          | Some w2 \<Rightarrow>
             (case busy_wait (txfifo_not_empty L) (send_flush L w2) of
                None \<Rightarrow> None
              | Some w3 \<Rightarrow> Some (send_stop L w3))))"

definition SysTick_Handler :: "'hw xmc_lib \<Rightarrow> 'hw world \<Rightarrow> 'hw world option" where
  "SysTick_Handler L w =
     (let w' = w\<lparr>SysTick_ticks := SysTick_ticks w + 1\<rparr>
      in if SysTick_ticks w' = I2C_MASTER_SEND_TASK_MS then send_task L w' else Some w')"

subsection \<open>I2C_SLAVE_RECEIVE_EVENT_HANDLER\<close>

definition I2C_SLAVE_RECEIVE_EVENT_HANDLER :: "'hw xmc_lib \<Rightarrow> 'hw world \<Rightarrow> 'hw world" where
  "I2C_SLAVE_RECEIVE_EVENT_HANDLER L w =
     (case call_GetReceivedData L I2C_SLAVE_HW w of
        (rx_slave_receive, w') \<Rightarrow>
          if rx_slave_receive = CMD_LED_HIGH then XMC_GPIO_SetOutputHigh w'
          else if rx_slave_receive = CMD_LED_LOW then XMC_GPIO_SetOutputLow w'
          else w')"

text \<open>The byte that the next receive event will read.\<close>

definition received_byte :: "'hw xmc_lib \<Rightarrow> 'hw world \<Rightarrow> 8 word" where
  "received_byte L w = fst (XMC_I2C_CH_GetReceivedData L I2C_SLAVE_HW (usic w))"

subsection \<open>main\<close>

text \<open>
  \<open>main\<close> never returns: it stops in the assertion or stays in \<open>while(1)\<close>. Its model
  is the list of the calls it has made by then, and where it ended. What the start-up
  code and the board support package provide is a parameter: \<open>cybsp_init\<close> is the result
  that the call \<open>cybsp_init()\<close> returns, \<open>NVIC_GetPriorityGrouping\<close> the value that call
  returns, \<open>CY_RSLT_SUCCESS\<close> and \<open>SystemCoreClock\<close> the constant and the variable of
  these names.
\<close>

datatype irqn = SysTick_IRQn | I2C_SLAVE_RECEIVE_EVENT_IRQN

record platform =
  cybsp_init :: "32 word"
  CY_RSLT_SUCCESS :: "32 word"
  SystemCoreClock :: "32 word"
  NVIC_GetPriorityGrouping :: "32 word"
  NVIC_EncodePriority :: "32 word \<Rightarrow> 32 word \<Rightarrow> 32 word \<Rightarrow> 32 word"

datatype boot_call =
    Cybsp_init
  | NVIC_SetPriority irqn "32 word"
  | NVIC_EnableIRQ irqn
  | SysTick_Config "32 word"

datatype main_end = Halted_in_assert | Idle_in_while

text \<open>
  Modelled from the spec: the macro \<open>CY_ASSERT\<close> comes from cy_utils.h, which is not among
  the sources. Section 7 of the specification says that a failed initialisation "halts
  execution immediately via a hard assertion": \<open>CY_ASSERT(x)\<close> with a false \<open>x\<close> halts, and
  the statements after it never run. \<open>CY_ASSERT_halts x\<close> says whether \<open>CY_ASSERT(x)\<close> halts.
\<close>

definition CY_ASSERT_halts :: "bool \<Rightarrow> bool" where
  "CY_ASSERT_halts x = (\<not> x)"

definition main :: "platform \<Rightarrow> boot_call list \<times> main_end" where
  "main P =
     (let result = cybsp_init P
      in if result \<noteq> CY_RSLT_SUCCESS P \<and> CY_ASSERT_halts False
         then ([Cybsp_init], Halted_in_assert)
         else ([Cybsp_init,
                NVIC_SetPriority I2C_SLAVE_RECEIVE_EVENT_IRQN
                  (NVIC_EncodePriority P (NVIC_GetPriorityGrouping P)
                     I2C_RECEIVE_EVENT_PRIORITY 0),
                NVIC_EnableIRQ I2C_SLAVE_RECEIVE_EVENT_IRQN,
                SysTick_Config (SystemCoreClock P div TICKS_PER_SECOND)],
               Idle_in_while))"

subsection \<open>Executions\<close>

text \<open>
  After \<open>main\<close> has started the timer, the program is driven by its two interrupts. An
  execution is a list of interrupts, each handled to its end before the next.
\<close>

fun dispatch :: "'hw xmc_lib \<Rightarrow> irqn \<Rightarrow> 'hw world \<Rightarrow> 'hw world option" where
  "dispatch L SysTick_IRQn w = SysTick_Handler L w"
| "dispatch L I2C_SLAVE_RECEIVE_EVENT_IRQN w = Some (I2C_SLAVE_RECEIVE_EVENT_HANDLER L w)"

fun run :: "'hw xmc_lib \<Rightarrow> irqn list \<Rightarrow> 'hw world \<Rightarrow> 'hw world option" where
  "run L [] w = Some w"
| "run L (i # is) w = (case dispatch L i w of None \<Rightarrow> None | Some w' \<Rightarrow> run L is w')"

text \<open>The command bytes handed to the bus, in order.\<close>

fun transmitted :: "hal_call list \<Rightarrow> 8 word list" where
  "transmitted [] = []"
| "transmitted (MasterTransmit ch d # cs) = d # transmitted cs"
| "transmitted (c # cs) = transmitted cs"

fun is_gpio_call :: "hal_call \<Rightarrow> bool" where
  "is_gpio_call SetOutputHigh = True"
| "is_gpio_call SetOutputLow = True"
| "is_gpio_call c = False"

subsection \<open>Successive reads of a register\<close>

text \<open>
  A read \<open>r\<close> returns a value and the next state. \<open>after_reads r n s\<close> is the state after
  \<open>n\<close> reads from \<open>s\<close>, and \<open>nth_read r n s\<close> is the value that read number \<open>n\<close> returns
  (the first read has number 0). With the condition of a loop for \<open>r\<close>, these are the
  states the loop goes through and the values of its condition.
\<close>

fun after_reads :: "('s \<Rightarrow> 'v \<times> 's) \<Rightarrow> nat \<Rightarrow> 's \<Rightarrow> 's" where
  "after_reads r 0 s = s"
| "after_reads r (Suc n) s = after_reads r n (snd (r s))"

definition nth_read :: "('s \<Rightarrow> 'v \<times> 's) \<Rightarrow> nat \<Rightarrow> 's \<Rightarrow> 'v" where
  "nth_read r n s = fst (r (after_reads r n s))"

definition first_reads :: "('s \<Rightarrow> 'v \<times> 's) \<Rightarrow> nat \<Rightarrow> 's \<Rightarrow> 'v list" where
  "first_reads r n s = map (\<lambda>i. nth_read r i s) [0..<n]"

text \<open>
  The reads of a wait that has ended: every read but the last finds the acknowledgement
  flag clear and the last finds it set; every read but the last finds the transmit FIFO
  not empty and the last finds it empty.
\<close>

definition ack_wait_reads :: "'hw xmc_lib \<Rightarrow> 32 word list \<Rightarrow> bool" where
  "ack_wait_reads L vs \<longleftrightarrow>
     vs \<noteq> [] \<and>
     (\<forall>v \<in> set (butlast vs). v AND XMC_I2C_CH_STATUS_FLAG_ACK_RECEIVED L = 0) \<and>
     last vs AND XMC_I2C_CH_STATUS_FLAG_ACK_RECEIVED L \<noteq> 0"

definition fifo_wait_reads :: "bool list \<Rightarrow> bool" where
  "fifo_wait_reads es \<longleftrightarrow> es \<noteq> [] \<and> (\<forall>e \<in> set (butlast es). \<not> e) \<and> last es"

text \<open>
  What the hardware does during a wait that starts in hardware state \<open>h\<close>: read number \<open>n\<close>
  of the master's status register finds the acknowledgement flag set; read number \<open>n\<close> of
  the transmit FIFO state finds it empty; and the same for the first such read.
\<close>

definition ack_at :: "'hw xmc_lib \<Rightarrow> nat \<Rightarrow> 'hw \<Rightarrow> bool" where
  "ack_at L n h \<longleftrightarrow>
     nth_read (XMC_I2C_CH_GetStatusFlag L I2C_MASTER_HW) n h
       AND XMC_I2C_CH_STATUS_FLAG_ACK_RECEIVED L \<noteq> 0"

definition empty_at :: "'hw xmc_lib \<Rightarrow> nat \<Rightarrow> 'hw \<Rightarrow> bool" where
  "empty_at L n h \<longleftrightarrow> nth_read (XMC_USIC_CH_TXFIFO_IsEmpty L I2C_MASTER_HW) n h"

definition first_ack_at :: "'hw xmc_lib \<Rightarrow> nat \<Rightarrow> 'hw \<Rightarrow> bool" where
  "first_ack_at L n h \<longleftrightarrow> ack_at L n h \<and> (\<forall>m<n. \<not> ack_at L m h)"

definition first_empty_at :: "'hw xmc_lib \<Rightarrow> nat \<Rightarrow> 'hw \<Rightarrow> bool" where
  "first_empty_at L n h \<longleftrightarrow> empty_at L n h \<and> (\<forall>m<n. \<not> empty_at L m h)"

subsection \<open>A scripted peripheral for concrete runs\<close>

text \<open>
  A hardware whose registers return the values of a script, one per read; when the script
  is used up the status register reads 0 (no flag is ever set again), the transmit FIFO
  reads empty and the receive register reads 0.
\<close>

record script_hw =
  status_script :: "32 word list"
  fifo_script :: "bool list"
  rx_script :: "8 word list"

definition script_lib :: "script_hw xmc_lib" where
  "script_lib =
     \<lparr>XMC_I2C_CH_MasterStart = (\<lambda>ch a c h. h),
      XMC_I2C_CH_GetStatusFlag = (\<lambda>ch h.
         case status_script h of [] \<Rightarrow> (0, h) | v # vs \<Rightarrow> (v, h\<lparr>status_script := vs\<rparr>)),
      XMC_I2C_CH_ClearStatusFlag = (\<lambda>ch f h. h),
      XMC_I2C_CH_MasterTransmit = (\<lambda>ch d h. h),
      XMC_USIC_CH_TXFIFO_IsEmpty = (\<lambda>ch h.
         case fifo_script h of [] \<Rightarrow> (True, h) | e # es \<Rightarrow> (e, h\<lparr>fifo_script := es\<rparr>)),
      XMC_I2C_CH_MasterStop = (\<lambda>ch h. h),
      XMC_I2C_CH_GetReceivedData = (\<lambda>ch h.
         case rx_script h of [] \<Rightarrow> (0, h) | d # ds \<Rightarrow> (d, h\<lparr>rx_script := ds\<rparr>)),
      I2C_SLAVE_SLAVE_ADDRESS = 0x50,
      XMC_I2C_CH_STATUS_FLAG_ACK_RECEIVED = 0x200\<rparr>"

definition script_world ::
  "32 word \<Rightarrow> 8 word \<Rightarrow> 32 word list \<Rightarrow> bool list \<Rightarrow> 8 word list \<Rightarrow> script_hw world" where
  "script_world t c ss fs rs =
     \<lparr>ticks = 0, tx_master_send = c, SysTick_ticks = t,
      usic = \<lparr>status_script = ss, fifo_script = fs, rx_script = rs\<rparr>,
      led_pin = False, calls = []\<rparr>"

definition script_platform :: "32 word \<Rightarrow> platform" where
  "script_platform r =
     \<lparr>cybsp_init = r, CY_RSLT_SUCCESS = 0, SystemCoreClock = 144000000,
      NVIC_GetPriorityGrouping = 0,
      NVIC_EncodePriority = (\<lambda>g p s. p)\<rparr>"

subsection \<open>The state of the sender after a number of timer interrupts\<close>

text \<open>
  After \<open>t\<close> timer interrupts the sender has sent \<open>t div 500\<close> commands: the counter stands
  at \<open>t mod 500\<close>, the stored command is the one sent last (\<open>CMD_LED_LOW\<close> before any
  send), and command number \<open>N\<close>, counted from 1, was \<open>CMD_LED_HIGH\<close> for odd \<open>N\<close> and
  \<open>CMD_LED_LOW\<close> for even \<open>N\<close>.
\<close>

definition sender_after :: "nat \<Rightarrow> 'hw world \<Rightarrow> bool" where
  "sender_after t w \<longleftrightarrow>
     SysTick_ticks w = of_nat (t mod 500) \<and>
     tx_master_send w = (if odd (t div 500) then CMD_LED_HIGH else CMD_LED_LOW) \<and>
     transmitted (calls w) =
       map (\<lambda>N. if odd N then CMD_LED_HIGH else CMD_LED_LOW) [1..<Suc (t div 500)]"

text \<open>
  A concrete send: the counter stands at 499, the first acknowledgement comes at the
  second read of the status register, the second at the third read, and the transmit
  FIFO is empty at its second read. \<open>script_sent\<close> is the state the handler returns.
\<close>

definition script_due :: "script_hw world" where
  "script_due = script_world 499 0x55 [0, 0x200, 0, 0, 0x200] [False, True] [0xAA]"

definition script_sent :: "script_hw world" where
  "script_sent = (script_world 0 0xAA [] [] [0xAA])\<lparr>calls :=
     [MasterStart I2C_MASTER_HW 0x50 XMC_I2C_CH_CMD_WRITE,
      GetStatusFlag I2C_MASTER_HW 0, GetStatusFlag I2C_MASTER_HW 0x200,
      ClearStatusFlag I2C_MASTER_HW 0x200, MasterTransmit I2C_MASTER_HW 0xAA,
      GetStatusFlag I2C_MASTER_HW 0, GetStatusFlag I2C_MASTER_HW 0, GetStatusFlag I2C_MASTER_HW 0x200,
      ClearStatusFlag I2C_MASTER_HW 0x200,
      TXFIFO_IsEmpty I2C_MASTER_HW False, TXFIFO_IsEmpty I2C_MASTER_HW True,
      MasterStop I2C_MASTER_HW]\<rparr>"

text \<open>
  A second concrete send, from the stored command 0xAA: both acknowledgements come at the
  first read. \<open>script_sent_low\<close> is the state the handler returns.
\<close>

definition script_due_high :: "script_hw world" where
  "script_due_high = script_world 499 0xAA [0x200, 0x200] [True] []"

definition script_sent_low :: "script_hw world" where
  "script_sent_low = (script_world 0 0x55 [] [] [])\<lparr>calls :=
     [MasterStart I2C_MASTER_HW 0x50 XMC_I2C_CH_CMD_WRITE,
      GetStatusFlag I2C_MASTER_HW 0x200,
      ClearStatusFlag I2C_MASTER_HW 0x200, MasterTransmit I2C_MASTER_HW 0x55,
      GetStatusFlag I2C_MASTER_HW 0x200,
      ClearStatusFlag I2C_MASTER_HW 0x200,
      TXFIFO_IsEmpty I2C_MASTER_HW True,
      MasterStop I2C_MASTER_HW]\<rparr>"

text \<open>
  A concrete execution from power-on: 500 timer interrupts, one receive interrupt, 500
  timer interrupts. The hardware acknowledges at once, and delivers the byte 0xAA.
\<close>

definition script_irqs :: "irqn list" where
  "script_irqs =
     replicate 500 SysTick_IRQn @ I2C_SLAVE_RECEIVE_EVENT_IRQN # replicate 500 SysTick_IRQn"

definition script_power_on :: "script_hw world" where
  "script_power_on =
     power_on \<lparr>status_script = [0x200, 0x200, 0x200, 0x200], fifo_script = [],
               rx_script = [0xAA]\<rparr> False"

text \<open>A send that is due on a hardware that never acknowledges.\<close>

definition script_silent :: "script_hw world" where
  "script_silent = script_world 499 0x55 [] [] []"

section \<open>Busy waiting\<close>

lemma nth_read_0: "nth_read r 0 s = fst (r s)"
  by (simp add: nth_read_def)

lemma nth_read_Suc: "nth_read r (Suc n) s = nth_read r n (snd (r s))"
  by (simp add: nth_read_def)

lemma busy_wait_step: "fst (c s) \<Longrightarrow> busy_wait c s = busy_wait c (snd (c s))"
  by (subst busy_wait.simps) (cases "c s", simp)

lemma busy_wait_stop: "\<not> fst (c s) \<Longrightarrow> busy_wait c s = Some (snd (c s))"
  by (subst busy_wait.simps) (cases "c s", simp)

text \<open>The loop ends at the first evaluation of its condition that is false.\<close>

lemma busy_wait_exit:
  "\<not> nth_read c n s \<Longrightarrow> (\<forall>m<n. nth_read c m s) \<Longrightarrow>
   busy_wait c s = Some (after_reads c (Suc n) s)"
proof (induction n arbitrary: s)
  case 0
  then show ?case by (simp add: nth_read_0 busy_wait_stop)
next
  case (Suc n)
  from Suc.prems(2) have first: "fst (c s)"
    using nth_read_0 [of c s] by blast
  have later: "\<forall>m<n. nth_read c m (snd (c s))"
    using Suc.prems(2) by (auto simp: nth_read_Suc [symmetric])
  have "busy_wait c (snd (c s)) = Some (after_reads c (Suc n) (snd (c s)))"
    using Suc.IH [of "snd (c s)"] Suc.prems(1) later by (simp add: nth_read_Suc)
  with first show ?case by (simp add: busy_wait_step)
qed

lemma busy_wait_Some:
  assumes "busy_wait c s = Some s'"
  shows "\<exists>n. \<not> nth_read c n s \<and> (\<forall>m<n. nth_read c m s) \<and> s' = after_reads c (Suc n) s"
proof (rule busy_wait.raw_induct [OF _ assms])
  fix bw :: "('a \<Rightarrow> bool \<times> 'a) \<Rightarrow> 'a \<Rightarrow> 'a option" and c s s'
  assume 1: "\<And>c s s'. bw c s = Some s' \<Longrightarrow>
      \<exists>n. \<not> nth_read c n s \<and> (\<forall>m<n. nth_read c m s) \<and> s' = after_reads c (Suc n) s"
    "(case c s of (b, t) \<Rightarrow> if b then bw c t else Some t) = Some s'"
  show "\<exists>n. \<not> nth_read c n s \<and> (\<forall>m<n. nth_read c m s) \<and> s' = after_reads c (Suc n) s"
  proof (cases "fst (c s)")
    case False
    with 1(2) have "s' = snd (c s)" by (simp split: prod.splits)
    with False show ?thesis by (intro exI [of _ 0]) (simp add: nth_read_0)
  next
    case True
    with 1(2) have "bw c (snd (c s)) = Some s'" by (simp split: prod.splits)
    from 1(1) [OF this] obtain n where
      n: "\<not> nth_read c n (snd (c s))" "\<forall>m<n. nth_read c m (snd (c s))"
         "s' = after_reads c (Suc n) (snd (c s))" by blast
    have "\<forall>m<Suc n. nth_read c m s"
    proof (intro allI impI)
      fix m assume "m < Suc n"
      then show "nth_read c m s"
        using True n(2) by (cases m) (simp_all add: nth_read_0 nth_read_Suc)
    qed
    with n(1,3) show ?thesis
      by (intro exI [of _ "Suc n"]) (simp add: nth_read_Suc)
  qed
qed

text \<open>The loop never ends exactly when its condition is true at every evaluation.\<close>

lemma busy_wait_None_iff: "busy_wait c s = None \<longleftrightarrow> (\<forall>n. nth_read c n s)"
proof
  assume none: "busy_wait c s = None"
  show "\<forall>n. nth_read c n s"
  proof (rule ccontr)
    assume "\<not> (\<forall>n. nth_read c n s)"
    then have ex: "\<exists>n. \<not> nth_read c n s" by blast
    define k where "k = (LEAST n. \<not> nth_read c n s)"
    have "\<not> nth_read c k s" unfolding k_def using ex by (rule LeastI_ex)
    moreover have "\<forall>m<k. nth_read c m s"
      unfolding k_def using not_less_Least by blast
    ultimately have "busy_wait c s = Some (after_reads c (Suc k) s)" by (rule busy_wait_exit)
    with none show False by simp
  qed
next
  assume "\<forall>n. nth_read c n s"
  then show "busy_wait c s = None"
    using busy_wait_Some [of c s] by (cases "busy_wait c s") auto
qed

lemma first_reads_0: "first_reads r 0 s = []"
  by (simp add: first_reads_def)

lemma first_reads_Suc: "first_reads r (Suc n) s = fst (r s) # first_reads r n (snd (r s))"
  unfolding first_reads_def by (simp only: map_upt_Suc nth_read_0 nth_read_Suc)

lemma first_reads_snoc: "first_reads r (Suc n) s = first_reads r n s @ [nth_read r n s]"
  by (simp add: first_reads_def)

lemma set_first_reads: "set (first_reads r n s) = (\<lambda>i. nth_read r i s) ` {..<n}"
  by (auto simp: first_reads_def)

text \<open>The two loop conditions, in terms of the register they read.\<close>

lemma ack_not_received_eq:
  "ack_not_received L w =
     (fst (XMC_I2C_CH_GetStatusFlag L I2C_MASTER_HW (usic w))
        AND XMC_I2C_CH_STATUS_FLAG_ACK_RECEIVED L = 0,
      w\<lparr>usic := snd (XMC_I2C_CH_GetStatusFlag L I2C_MASTER_HW (usic w)),
        calls := calls w @
          [GetStatusFlag I2C_MASTER_HW (fst (XMC_I2C_CH_GetStatusFlag L I2C_MASTER_HW (usic w)))]\<rparr>)"
  by (cases "XMC_I2C_CH_GetStatusFlag L I2C_MASTER_HW (usic w)")
     (simp add: ack_not_received_def call_GetStatusFlag_def)

lemma after_reads_ack:
  "after_reads (ack_not_received L) n w =
     w\<lparr>usic := after_reads (XMC_I2C_CH_GetStatusFlag L I2C_MASTER_HW) n (usic w),
       calls := calls w @ map (GetStatusFlag I2C_MASTER_HW)
         (first_reads (XMC_I2C_CH_GetStatusFlag L I2C_MASTER_HW) n (usic w))\<rparr>"
  by (induction n arbitrary: w) (simp_all add: first_reads_0 first_reads_Suc ack_not_received_eq)

lemma nth_read_ack:
  "nth_read (ack_not_received L) n w \<longleftrightarrow>
     nth_read (XMC_I2C_CH_GetStatusFlag L I2C_MASTER_HW) n (usic w)
       AND XMC_I2C_CH_STATUS_FLAG_ACK_RECEIVED L = 0"
  by (simp add: nth_read_def after_reads_ack ack_not_received_eq)

lemma txfifo_not_empty_eq:
  "txfifo_not_empty L w =
     (\<not> fst (XMC_USIC_CH_TXFIFO_IsEmpty L I2C_MASTER_HW (usic w)),
      w\<lparr>usic := snd (XMC_USIC_CH_TXFIFO_IsEmpty L I2C_MASTER_HW (usic w)),
        calls := calls w @
          [TXFIFO_IsEmpty I2C_MASTER_HW (fst (XMC_USIC_CH_TXFIFO_IsEmpty L I2C_MASTER_HW (usic w)))]\<rparr>)"
  by (cases "XMC_USIC_CH_TXFIFO_IsEmpty L I2C_MASTER_HW (usic w)")
     (simp add: txfifo_not_empty_def call_TXFIFO_IsEmpty_def)

lemma after_reads_fifo:
  "after_reads (txfifo_not_empty L) n w =
     w\<lparr>usic := after_reads (XMC_USIC_CH_TXFIFO_IsEmpty L I2C_MASTER_HW) n (usic w),
       calls := calls w @ map (TXFIFO_IsEmpty I2C_MASTER_HW)
         (first_reads (XMC_USIC_CH_TXFIFO_IsEmpty L I2C_MASTER_HW) n (usic w))\<rparr>"
  by (induction n arbitrary: w) (simp_all add: first_reads_0 first_reads_Suc txfifo_not_empty_eq)

lemma nth_read_fifo:
  "nth_read (txfifo_not_empty L) n w \<longleftrightarrow>
     \<not> nth_read (XMC_USIC_CH_TXFIFO_IsEmpty L I2C_MASTER_HW) n (usic w)"
  by (simp add: nth_read_def after_reads_fifo txfifo_not_empty_eq)

lemma ack_wait_reads_first:
  assumes "nth_read r n h AND XMC_I2C_CH_STATUS_FLAG_ACK_RECEIVED L \<noteq> 0"
    and "\<forall>m<n. nth_read r m h AND XMC_I2C_CH_STATUS_FLAG_ACK_RECEIVED L = 0"
  shows "ack_wait_reads L (first_reads r (Suc n) h)"
  using assms by (auto simp: ack_wait_reads_def first_reads_snoc set_first_reads)

lemma fifo_wait_reads_first:
  assumes "nth_read r n h" and "\<forall>m<n. \<not> nth_read r m h"
  shows "fifo_wait_reads (first_reads r (Suc n) h)"
  using assms by (auto simp: fifo_wait_reads_def first_reads_snoc set_first_reads)

section \<open>The send task\<close>

text \<open>A wait that ends changes the hardware and the log of calls, and nothing else.\<close>

lemma ack_wait_effect:
  assumes "busy_wait (ack_not_received L) w = Some w'"
  shows "\<exists>vs h. ack_wait_reads L vs \<and>
           w' = w\<lparr>usic := h, calls := calls w @ map (GetStatusFlag I2C_MASTER_HW) vs\<rparr>"
proof -
  let ?r = "XMC_I2C_CH_GetStatusFlag L I2C_MASTER_HW"
  from busy_wait_Some [OF assms] obtain n where
    n: "\<not> nth_read (ack_not_received L) n w" "\<forall>m<n. nth_read (ack_not_received L) m w"
       "w' = after_reads (ack_not_received L) (Suc n) w" by blast
  have "ack_wait_reads L (first_reads ?r (Suc n) (usic w))"
    using n(1,2) by (intro ack_wait_reads_first) (simp_all add: nth_read_ack)
  moreover have "w' = w\<lparr>usic := after_reads ?r (Suc n) (usic w),
      calls := calls w @ map (GetStatusFlag I2C_MASTER_HW) (first_reads ?r (Suc n) (usic w))\<rparr>"
    unfolding n(3) by (rule after_reads_ack)
  ultimately show ?thesis by blast
qed

lemma fifo_wait_effect:
  assumes "busy_wait (txfifo_not_empty L) w = Some w'"
  shows "\<exists>es h. fifo_wait_reads es \<and>
           w' = w\<lparr>usic := h, calls := calls w @ map (TXFIFO_IsEmpty I2C_MASTER_HW) es\<rparr>"
proof -
  let ?r = "XMC_USIC_CH_TXFIFO_IsEmpty L I2C_MASTER_HW"
  from busy_wait_Some [OF assms] obtain n where
    n: "\<not> nth_read (txfifo_not_empty L) n w" "\<forall>m<n. nth_read (txfifo_not_empty L) m w"
       "w' = after_reads (txfifo_not_empty L) (Suc n) w" by blast
  have "fifo_wait_reads (first_reads ?r (Suc n) (usic w))"
    using n(1,2) by (intro fifo_wait_reads_first) (simp_all add: nth_read_fifo)
  moreover have "w' = w\<lparr>usic := after_reads ?r (Suc n) (usic w),
      calls := calls w @ map (TXFIFO_IsEmpty I2C_MASTER_HW) (first_reads ?r (Suc n) (usic w))\<rparr>"
    unfolding n(3) by (rule after_reads_fifo)
  ultimately show ?thesis by blast
qed

lemma send_task_SomeD:
  assumes "send_task L w = Some w'"
  obtains w1 w2 w3 where
    "busy_wait (ack_not_received L) (send_start L w) = Some w1"
    "busy_wait (ack_not_received L) (send_data L w1) = Some w2"
    "busy_wait (txfifo_not_empty L) (send_flush L w2) = Some w3"
    "w' = send_stop L w3"
  using assms unfolding send_task_def by (auto split: option.splits)

lemma send_task_effect:
  assumes "send_task L w = Some w'"
  shows "\<exists>vs1 vs2 es h.
     ack_wait_reads L vs1 \<and> ack_wait_reads L vs2 \<and> fifo_wait_reads es \<and>
     w' = w\<lparr>tx_master_send := toggle_command (tx_master_send w),
            SysTick_ticks := 0,
            usic := h,
            calls := calls w @
              [MasterStart I2C_MASTER_HW (I2C_SLAVE_SLAVE_ADDRESS L) XMC_I2C_CH_CMD_WRITE] @
              map (GetStatusFlag I2C_MASTER_HW) vs1 @
              [ClearStatusFlag I2C_MASTER_HW (XMC_I2C_CH_STATUS_FLAG_ACK_RECEIVED L),
               MasterTransmit I2C_MASTER_HW (toggle_command (tx_master_send w))] @
              map (GetStatusFlag I2C_MASTER_HW) vs2 @
              [ClearStatusFlag I2C_MASTER_HW (XMC_I2C_CH_STATUS_FLAG_ACK_RECEIVED L)] @
              map (TXFIFO_IsEmpty I2C_MASTER_HW) es @
              [MasterStop I2C_MASTER_HW]\<rparr>"
proof -
  from assms obtain w1 w2 w3 where
    1: "busy_wait (ack_not_received L) (send_start L w) = Some w1" and
    2: "busy_wait (ack_not_received L) (send_data L w1) = Some w2" and
    3: "busy_wait (txfifo_not_empty L) (send_flush L w2) = Some w3" and
    4: "w' = send_stop L w3"
    by (rule send_task_SomeD)
  from ack_wait_effect [OF 1] obtain vs1 h1 where vs1: "ack_wait_reads L vs1"
    "w1 = (send_start L w)\<lparr>usic := h1,
       calls := calls (send_start L w) @ map (GetStatusFlag I2C_MASTER_HW) vs1\<rparr>" by blast
  from ack_wait_effect [OF 2] obtain vs2 h2 where vs2: "ack_wait_reads L vs2"
    "w2 = (send_data L w1)\<lparr>usic := h2,
       calls := calls (send_data L w1) @ map (GetStatusFlag I2C_MASTER_HW) vs2\<rparr>" by blast
  from fifo_wait_effect [OF 3] obtain es h3 where es: "fifo_wait_reads es"
    "w3 = (send_flush L w2)\<lparr>usic := h3,
       calls := calls (send_flush L w2) @ map (TXFIFO_IsEmpty I2C_MASTER_HW) es\<rparr>" by blast
  have "w' = w\<lparr>tx_master_send := toggle_command (tx_master_send w),
            SysTick_ticks := 0,
            usic := XMC_I2C_CH_MasterStop L I2C_MASTER_HW h3,
            calls := calls w @
              [MasterStart I2C_MASTER_HW (I2C_SLAVE_SLAVE_ADDRESS L) XMC_I2C_CH_CMD_WRITE] @
              map (GetStatusFlag I2C_MASTER_HW) vs1 @
              [ClearStatusFlag I2C_MASTER_HW (XMC_I2C_CH_STATUS_FLAG_ACK_RECEIVED L),
               MasterTransmit I2C_MASTER_HW (toggle_command (tx_master_send w))] @
              map (GetStatusFlag I2C_MASTER_HW) vs2 @
              [ClearStatusFlag I2C_MASTER_HW (XMC_I2C_CH_STATUS_FLAG_ACK_RECEIVED L)] @
              map (TXFIFO_IsEmpty I2C_MASTER_HW) es @
              [MasterStop I2C_MASTER_HW]\<rparr>"
    unfolding 4 es(2) vs2(2) vs1(2)
    by (simp add: send_stop_def send_flush_def send_data_def send_start_def
        call_MasterStop_def call_ClearStatusFlag_def call_MasterTransmit_def
        call_MasterStart_def Let_def)
  with vs1(1) vs2(1) es(1) show ?thesis by blast
qed

section \<open>The periodic command sender\<close>

lemma tick_idle:
  "SysTick_ticks w + 1 \<noteq> I2C_MASTER_SEND_TASK_MS \<Longrightarrow>
   SysTick_Handler L w = Some (w\<lparr>SysTick_ticks := SysTick_ticks w + 1\<rparr>)"
  by (simp add: SysTick_Handler_def Let_def)

lemma tick_send:
  "SysTick_ticks w + 1 = I2C_MASTER_SEND_TASK_MS \<Longrightarrow>
   SysTick_Handler L w = send_task L (w\<lparr>SysTick_ticks := I2C_MASTER_SEND_TASK_MS\<rparr>)"
  by (simp add: SysTick_Handler_def Let_def)

lemma of_nat_below_threshold:
  assumes "n < 500"
  shows "(of_nat n :: 32 word) \<noteq> I2C_MASTER_SEND_TASK_MS"
proof
  assume "(of_nat n :: 32 word) = I2C_MASTER_SEND_TASK_MS"
  then have "unat (of_nat n :: 32 word) = unat (500 :: 32 word)"
    by (simp add: I2C_MASTER_SEND_TASK_MS_def)
  moreover have "unat (of_nat n :: 32 word) = n"
    using assms by (simp add: unat_of_nat)
  ultimately show False using assms by simp
qed

lemma run_append:
  "run L (xs @ ys) w = (case run L xs w of None \<Rightarrow> None | Some w' \<Rightarrow> run L ys w')"
  by (induction xs arbitrary: w) (simp_all split: option.splits)

lemma run_idle:
  "i + k < 500 \<Longrightarrow> SysTick_ticks w = of_nat i \<Longrightarrow>
   run L (replicate k SysTick_IRQn) w = Some (w\<lparr>SysTick_ticks := of_nat (i + k)\<rparr>)"
proof (induction k arbitrary: w i)
  case 0
  then show ?case by simp
next
  case (Suc k)
  have eq: "SysTick_ticks w + 1 = of_nat (Suc i)" using Suc.prems(2) by simp
  have "(of_nat (Suc i) :: 32 word) \<noteq> I2C_MASTER_SEND_TASK_MS"
    using Suc.prems(1) by (intro of_nat_below_threshold) simp
  then have neq: "SysTick_ticks w + 1 \<noteq> I2C_MASTER_SEND_TASK_MS" unfolding eq .
  have step: "SysTick_Handler L w = Some (w\<lparr>SysTick_ticks := of_nat (Suc i)\<rparr>)"
    using tick_idle [OF neq, of L] unfolding eq .
  have "run L (replicate k SysTick_IRQn) (w\<lparr>SysTick_ticks := of_nat (Suc i)\<rparr>) =
        Some (w\<lparr>SysTick_ticks := of_nat (Suc i), SysTick_ticks := of_nat (Suc i + k)\<rparr>)"
    using Suc.prems(1) by (intro Suc.IH) simp_all
  with step show ?case by simp
qed

lemma script_send: "SysTick_Handler script_lib script_due = Some script_sent"
  by code_simp

lemma script_due_ticks: "SysTick_ticks script_due + 1 = I2C_MASTER_SEND_TASK_MS"
  by (simp add: script_due_def script_world_def I2C_MASTER_SEND_TASK_MS_def)

lemma script_send_high: "SysTick_Handler script_lib script_due_high = Some script_sent_low"
  by code_simp

lemma script_due_high_ticks: "SysTick_ticks script_due_high + 1 = I2C_MASTER_SEND_TASK_MS"
  by (simp add: script_due_high_def script_world_def I2C_MASTER_SEND_TASK_MS_def)

lemma toggle_command_value:
  "toggle_command c = (if c = 0x55 then 0xAA else if c = 0xAA then 0x55 else c)"
  by (simp add: toggle_command_def CMD_LED_LOW_def CMD_LED_HIGH_def)

text \<open>
  C5. When the incremented tick counter is not the send threshold of 500, the handler
  returns and only the tick counter has changed: no call into the peripheral library is
  made (no bus operation, no status flag touched), and the stored command, the hardware
  and the LED pin are as before.
\<close>

theorem idle_tick_only_counts:
  assumes "SysTick_ticks w + 1 \<noteq> I2C_MASTER_SEND_TASK_MS"
  shows "SysTick_Handler L w = Some (w\<lparr>SysTick_ticks := SysTick_ticks w + 1\<rparr>)"
  using assms by (simp add: SysTick_Handler_def Let_def)

theorem idle_tick_only_counts_witness:
  "SysTick_ticks (script_world 7 0x55 [0x200] [True] [0xAA]) + 1 \<noteq> I2C_MASTER_SEND_TASK_MS \<and>
   SysTick_Handler script_lib (script_world 7 0x55 [0x200] [True] [0xAA]) =
     Some (script_world 8 0x55 [0x200] [True] [0xAA])"
proof -
  have h: "SysTick_ticks (script_world 7 0x55 [0x200] [True] [0xAA]) + 1 \<noteq> I2C_MASTER_SEND_TASK_MS"
    by (simp add: script_world_def I2C_MASTER_SEND_TASK_MS_def)
  show ?thesis
    using h idle_tick_only_counts [OF h, of script_lib] by (simp add: script_world_def)
qed

text \<open>
  C3. When the incremented tick counter equals the send threshold and the handler returns,
  it has flipped the stored command (0x55 has become 0xAA, 0xAA has become 0x55, and any
  other value is as it was) and made exactly these calls, in this order: START to the
  fixed slave address in write mode; reads of the status register until one finds the
  acknowledgement flag set; the clearing of that flag; the transmission of the flipped
  command byte; again reads of the status register until the flag is set, and its
  clearing; reads of the transmit FIFO state until it is empty; STOP. The tick counter is
  zero at the end.
\<close>

theorem send_sequence:
  assumes "SysTick_ticks w + 1 = I2C_MASTER_SEND_TASK_MS"
    and "SysTick_Handler L w = Some w'"
  shows "\<exists>vs1 vs2 es.
     ack_wait_reads L vs1 \<and> ack_wait_reads L vs2 \<and> fifo_wait_reads es \<and>
     tx_master_send w' =
       (if tx_master_send w = 0x55 then 0xAA
        else if tx_master_send w = 0xAA then 0x55
        else tx_master_send w) \<and>
     tx_master_send w' = toggle_command (tx_master_send w) \<and>
     calls w' = calls w @
       [MasterStart I2C_MASTER_HW (I2C_SLAVE_SLAVE_ADDRESS L) XMC_I2C_CH_CMD_WRITE] @
       map (GetStatusFlag I2C_MASTER_HW) vs1 @
       [ClearStatusFlag I2C_MASTER_HW (XMC_I2C_CH_STATUS_FLAG_ACK_RECEIVED L),
        MasterTransmit I2C_MASTER_HW (tx_master_send w')] @
       map (GetStatusFlag I2C_MASTER_HW) vs2 @
       [ClearStatusFlag I2C_MASTER_HW (XMC_I2C_CH_STATUS_FLAG_ACK_RECEIVED L)] @
       map (TXFIFO_IsEmpty I2C_MASTER_HW) es @
       [MasterStop I2C_MASTER_HW] \<and>
     SysTick_ticks w' = 0"
proof -
  from assms have "send_task L (w\<lparr>SysTick_ticks := I2C_MASTER_SEND_TASK_MS\<rparr>) = Some w'"
    by (simp add: tick_send)
  from send_task_effect [OF this] obtain vs1 vs2 es h where
    reads: "ack_wait_reads L vs1" "ack_wait_reads L vs2" "fifo_wait_reads es"
    and w': "w' = w\<lparr>SysTick_ticks := I2C_MASTER_SEND_TASK_MS,
            tx_master_send := toggle_command (tx_master_send w),
            SysTick_ticks := 0,
            usic := h,
            calls := calls w @
              [MasterStart I2C_MASTER_HW (I2C_SLAVE_SLAVE_ADDRESS L) XMC_I2C_CH_CMD_WRITE] @
              map (GetStatusFlag I2C_MASTER_HW) vs1 @
              [ClearStatusFlag I2C_MASTER_HW (XMC_I2C_CH_STATUS_FLAG_ACK_RECEIVED L),
               MasterTransmit I2C_MASTER_HW (toggle_command (tx_master_send w))] @
              map (GetStatusFlag I2C_MASTER_HW) vs2 @
              [ClearStatusFlag I2C_MASTER_HW (XMC_I2C_CH_STATUS_FLAG_ACK_RECEIVED L)] @
              map (TXFIFO_IsEmpty I2C_MASTER_HW) es @
              [MasterStop I2C_MASTER_HW]\<rparr>"
    by auto
  have tx: "tx_master_send w' = toggle_command (tx_master_send w)"
    and ticks: "SysTick_ticks w' = 0"
    and log: "calls w' = calls w @
       [MasterStart I2C_MASTER_HW (I2C_SLAVE_SLAVE_ADDRESS L) XMC_I2C_CH_CMD_WRITE] @
       map (GetStatusFlag I2C_MASTER_HW) vs1 @
       [ClearStatusFlag I2C_MASTER_HW (XMC_I2C_CH_STATUS_FLAG_ACK_RECEIVED L),
        MasterTransmit I2C_MASTER_HW (tx_master_send w')] @
       map (GetStatusFlag I2C_MASTER_HW) vs2 @
       [ClearStatusFlag I2C_MASTER_HW (XMC_I2C_CH_STATUS_FLAG_ACK_RECEIVED L)] @
       map (TXFIFO_IsEmpty I2C_MASTER_HW) es @
       [MasterStop I2C_MASTER_HW]"
    by (simp_all add: w')
  have flip: "tx_master_send w' =
       (if tx_master_send w = 0x55 then 0xAA
        else if tx_master_send w = 0xAA then 0x55
        else tx_master_send w)"
    unfolding tx by (rule toggle_command_value)
  from reads flip tx log ticks show ?thesis
    by (intro exI [of _ vs1] exI [of _ vs2] exI [of _ es] conjI)
qed

theorem send_sequence_witness:
  "SysTick_ticks script_due + 1 = I2C_MASTER_SEND_TASK_MS \<and>
   SysTick_Handler script_lib script_due = Some script_sent \<and>
   tx_master_send script_due = 0x55 \<and> tx_master_send script_sent = 0xAA \<and>
   (\<exists>vs1 vs2 es.
     ack_wait_reads script_lib vs1 \<and> ack_wait_reads script_lib vs2 \<and> fifo_wait_reads es \<and>
     calls script_sent = calls script_due @
       [MasterStart I2C_MASTER_HW (I2C_SLAVE_SLAVE_ADDRESS script_lib) XMC_I2C_CH_CMD_WRITE] @
       map (GetStatusFlag I2C_MASTER_HW) vs1 @
       [ClearStatusFlag I2C_MASTER_HW (XMC_I2C_CH_STATUS_FLAG_ACK_RECEIVED script_lib),
        MasterTransmit I2C_MASTER_HW 0xAA] @
       map (GetStatusFlag I2C_MASTER_HW) vs2 @
       [ClearStatusFlag I2C_MASTER_HW (XMC_I2C_CH_STATUS_FLAG_ACK_RECEIVED script_lib)] @
       map (TXFIFO_IsEmpty I2C_MASTER_HW) es @
       [MasterStop I2C_MASTER_HW] \<and>
     SysTick_ticks script_sent = 0) \<and>
   SysTick_ticks script_due_high + 1 = I2C_MASTER_SEND_TASK_MS \<and>
   SysTick_Handler script_lib script_due_high = Some script_sent_low \<and>
   tx_master_send script_due_high = 0xAA \<and> tx_master_send script_sent_low = 0x55 \<and>
   (\<exists>vs1 vs2 es.
     ack_wait_reads script_lib vs1 \<and> ack_wait_reads script_lib vs2 \<and> fifo_wait_reads es \<and>
     calls script_sent_low = calls script_due_high @
       [MasterStart I2C_MASTER_HW (I2C_SLAVE_SLAVE_ADDRESS script_lib) XMC_I2C_CH_CMD_WRITE] @
       map (GetStatusFlag I2C_MASTER_HW) vs1 @
       [ClearStatusFlag I2C_MASTER_HW (XMC_I2C_CH_STATUS_FLAG_ACK_RECEIVED script_lib),
        MasterTransmit I2C_MASTER_HW 0x55] @
       map (GetStatusFlag I2C_MASTER_HW) vs2 @
       [ClearStatusFlag I2C_MASTER_HW (XMC_I2C_CH_STATUS_FLAG_ACK_RECEIVED script_lib)] @
       map (TXFIFO_IsEmpty I2C_MASTER_HW) es @
       [MasterStop I2C_MASTER_HW] \<and>
     SysTick_ticks script_sent_low = 0)"
proof -
  have low: "tx_master_send script_due = 0x55"
    by (simp add: script_due_def script_world_def)
  have high: "tx_master_send script_due_high = 0xAA"
    by (simp add: script_due_high_def script_world_def)
  have first: "tx_master_send script_sent = 0xAA \<and>
   (\<exists>vs1 vs2 es.
     ack_wait_reads script_lib vs1 \<and> ack_wait_reads script_lib vs2 \<and> fifo_wait_reads es \<and>
     calls script_sent = calls script_due @
       [MasterStart I2C_MASTER_HW (I2C_SLAVE_SLAVE_ADDRESS script_lib) XMC_I2C_CH_CMD_WRITE] @
       map (GetStatusFlag I2C_MASTER_HW) vs1 @
       [ClearStatusFlag I2C_MASTER_HW (XMC_I2C_CH_STATUS_FLAG_ACK_RECEIVED script_lib),
        MasterTransmit I2C_MASTER_HW 0xAA] @
       map (GetStatusFlag I2C_MASTER_HW) vs2 @
       [ClearStatusFlag I2C_MASTER_HW (XMC_I2C_CH_STATUS_FLAG_ACK_RECEIVED script_lib)] @
       map (TXFIFO_IsEmpty I2C_MASTER_HW) es @
       [MasterStop I2C_MASTER_HW] \<and>
     SysTick_ticks script_sent = 0)"
  proof -
    from send_sequence [OF script_due_ticks script_send] obtain vs1 vs2 es where
      r: "ack_wait_reads script_lib vs1" "ack_wait_reads script_lib vs2" "fifo_wait_reads es"
        "tx_master_send script_sent =
           (if tx_master_send script_due = 0x55 then 0xAA
            else if tx_master_send script_due = 0xAA then 0x55
            else tx_master_send script_due)"
        "calls script_sent = calls script_due @
           [MasterStart I2C_MASTER_HW (I2C_SLAVE_SLAVE_ADDRESS script_lib) XMC_I2C_CH_CMD_WRITE] @
           map (GetStatusFlag I2C_MASTER_HW) vs1 @
           [ClearStatusFlag I2C_MASTER_HW (XMC_I2C_CH_STATUS_FLAG_ACK_RECEIVED script_lib),
            MasterTransmit I2C_MASTER_HW (tx_master_send script_sent)] @
           map (GetStatusFlag I2C_MASTER_HW) vs2 @
           [ClearStatusFlag I2C_MASTER_HW (XMC_I2C_CH_STATUS_FLAG_ACK_RECEIVED script_lib)] @
           map (TXFIFO_IsEmpty I2C_MASTER_HW) es @
           [MasterStop I2C_MASTER_HW]"
        "SysTick_ticks script_sent = 0"
      by blast
    from r(4) low have v: "tx_master_send script_sent = 0xAA" by simp
    from v r(1-3) r(5) [unfolded v] r(6) show ?thesis
      by (intro conjI exI [of _ vs1] exI [of _ vs2] exI [of _ es])
  qed
  have second: "tx_master_send script_sent_low = 0x55 \<and>
   (\<exists>vs1 vs2 es.
     ack_wait_reads script_lib vs1 \<and> ack_wait_reads script_lib vs2 \<and> fifo_wait_reads es \<and>
     calls script_sent_low = calls script_due_high @
       [MasterStart I2C_MASTER_HW (I2C_SLAVE_SLAVE_ADDRESS script_lib) XMC_I2C_CH_CMD_WRITE] @
       map (GetStatusFlag I2C_MASTER_HW) vs1 @
       [ClearStatusFlag I2C_MASTER_HW (XMC_I2C_CH_STATUS_FLAG_ACK_RECEIVED script_lib),
        MasterTransmit I2C_MASTER_HW 0x55] @
       map (GetStatusFlag I2C_MASTER_HW) vs2 @
       [ClearStatusFlag I2C_MASTER_HW (XMC_I2C_CH_STATUS_FLAG_ACK_RECEIVED script_lib)] @
       map (TXFIFO_IsEmpty I2C_MASTER_HW) es @
       [MasterStop I2C_MASTER_HW] \<and>
     SysTick_ticks script_sent_low = 0)"
  proof -
    from send_sequence [OF script_due_high_ticks script_send_high] obtain vs1 vs2 es where
      r: "ack_wait_reads script_lib vs1" "ack_wait_reads script_lib vs2" "fifo_wait_reads es"
        "tx_master_send script_sent_low =
           (if tx_master_send script_due_high = 0x55 then 0xAA
            else if tx_master_send script_due_high = 0xAA then 0x55
            else tx_master_send script_due_high)"
        "calls script_sent_low = calls script_due_high @
           [MasterStart I2C_MASTER_HW (I2C_SLAVE_SLAVE_ADDRESS script_lib) XMC_I2C_CH_CMD_WRITE] @
           map (GetStatusFlag I2C_MASTER_HW) vs1 @
           [ClearStatusFlag I2C_MASTER_HW (XMC_I2C_CH_STATUS_FLAG_ACK_RECEIVED script_lib),
            MasterTransmit I2C_MASTER_HW (tx_master_send script_sent_low)] @
           map (GetStatusFlag I2C_MASTER_HW) vs2 @
           [ClearStatusFlag I2C_MASTER_HW (XMC_I2C_CH_STATUS_FLAG_ACK_RECEIVED script_lib)] @
           map (TXFIFO_IsEmpty I2C_MASTER_HW) es @
           [MasterStop I2C_MASTER_HW]"
        "SysTick_ticks script_sent_low = 0"
      by blast
    from r(4) high have v: "tx_master_send script_sent_low = 0x55" by simp
    from v r(1-3) r(5) [unfolded v] r(6) show ?thesis
      by (intro conjI exI [of _ vs1] exI [of _ vs2] exI [of _ es])
  qed
  from script_due_ticks script_send low first script_due_high_ticks script_send_high high second
  show ?thesis by blast
qed

text \<open>
  C4. Whenever an invocation of the handler completes a send, whatever the hardware did
  during the waits, the tick counter is 0 on return. From there the next 499 invocations
  only count (after \<open>k < 500\<close> of them the counter is \<open>k\<close> and nothing else has changed),
  and invocation number 500 runs the send task again, with the counter at 500.
\<close>

theorem counter_reset_after_send:
  assumes "SysTick_ticks w + 1 = I2C_MASTER_SEND_TASK_MS"
    and "SysTick_Handler L w = Some w'"
  shows "SysTick_ticks w' = 0 \<and>
    (\<forall>k<500. run L (replicate k SysTick_IRQn) w' = Some (w'\<lparr>SysTick_ticks := of_nat k\<rparr>)) \<and>
    run L (replicate 500 SysTick_IRQn) w' =
      send_task L (w'\<lparr>SysTick_ticks := I2C_MASTER_SEND_TASK_MS\<rparr>)"
proof -
  from assms have "send_task L (w\<lparr>SysTick_ticks := I2C_MASTER_SEND_TASK_MS\<rparr>) = Some w'"
    by (simp add: tick_send)
  from send_task_effect [OF this] have zero: "SysTick_ticks w' = 0" by auto
  then have start: "SysTick_ticks w' = of_nat 0" by simp
  have idle: "run L (replicate k SysTick_IRQn) w' = Some (w'\<lparr>SysTick_ticks := of_nat k\<rparr>)"
    if "k < 500" for k
    using run_idle [of 0 k w' L] that start by simp
  have "replicate (499 + Suc 0) SysTick_IRQn = replicate 499 SysTick_IRQn @ [SysTick_IRQn]"
    by (simp only: replicate_add replicate.simps)
  then have "replicate 500 SysTick_IRQn = replicate 499 SysTick_IRQn @ [SysTick_IRQn]"
    by simp
  then have "run L (replicate 500 SysTick_IRQn) w' =
      SysTick_Handler L (w'\<lparr>SysTick_ticks := of_nat 499\<rparr>)"
    using idle [of 499] by (simp add: run_append split: option.split)
  also have "\<dots> = send_task L (w'\<lparr>SysTick_ticks := I2C_MASTER_SEND_TASK_MS\<rparr>)"
    by (simp add: tick_send I2C_MASTER_SEND_TASK_MS_def)
  finally show ?thesis using zero idle by blast
qed

theorem counter_reset_after_send_witness:
  "SysTick_ticks script_due + 1 = I2C_MASTER_SEND_TASK_MS \<and>
   SysTick_Handler script_lib script_due = Some script_sent \<and>
   SysTick_ticks script_sent = 0 \<and>
   run script_lib (replicate 499 SysTick_IRQn) script_sent =
     Some (script_sent\<lparr>SysTick_ticks := 499\<rparr>) \<and>
   run script_lib (replicate 500 SysTick_IRQn) script_sent =
     send_task script_lib (script_sent\<lparr>SysTick_ticks := I2C_MASTER_SEND_TASK_MS\<rparr>)"
  using script_due_ticks script_send
    counter_reset_after_send [OF script_due_ticks script_send]
  by simp

lemma nth_read_ack_at: "nth_read (ack_not_received L) n w \<longleftrightarrow> \<not> ack_at L n (usic w)"
  by (simp add: nth_read_ack ack_at_def)

lemma nth_read_empty_at: "nth_read (txfifo_not_empty L) n w \<longleftrightarrow> \<not> empty_at L n (usic w)"
  by (simp add: nth_read_fifo empty_at_def)

lemma ack_wait_iff:
  "busy_wait (ack_not_received L) w = Some w' \<longleftrightarrow>
     (\<exists>n. first_ack_at L n (usic w) \<and> w' = after_reads (ack_not_received L) (Suc n) w)"
proof
  assume "busy_wait (ack_not_received L) w = Some w'"
  from busy_wait_Some [OF this] show
    "\<exists>n. first_ack_at L n (usic w) \<and> w' = after_reads (ack_not_received L) (Suc n) w"
    by (auto simp: first_ack_at_def nth_read_ack_at)
next
  assume "\<exists>n. first_ack_at L n (usic w) \<and> w' = after_reads (ack_not_received L) (Suc n) w"
  then obtain n where n: "first_ack_at L n (usic w)"
    "w' = after_reads (ack_not_received L) (Suc n) w" by blast
  from n(1) have "busy_wait (ack_not_received L) w =
      Some (after_reads (ack_not_received L) (Suc n) w)"
    by (intro busy_wait_exit) (simp_all add: first_ack_at_def nth_read_ack_at)
  with n(2) show "busy_wait (ack_not_received L) w = Some w'" by simp
qed

lemma fifo_wait_iff:
  "busy_wait (txfifo_not_empty L) w = Some w' \<longleftrightarrow>
     (\<exists>n. first_empty_at L n (usic w) \<and> w' = after_reads (txfifo_not_empty L) (Suc n) w)"
proof
  assume "busy_wait (txfifo_not_empty L) w = Some w'"
  from busy_wait_Some [OF this] show
    "\<exists>n. first_empty_at L n (usic w) \<and> w' = after_reads (txfifo_not_empty L) (Suc n) w"
    by (auto simp: first_empty_at_def nth_read_empty_at)
next
  assume "\<exists>n. first_empty_at L n (usic w) \<and> w' = after_reads (txfifo_not_empty L) (Suc n) w"
  then obtain n where n: "first_empty_at L n (usic w)"
    "w' = after_reads (txfifo_not_empty L) (Suc n) w" by blast
  from n(1) have "busy_wait (txfifo_not_empty L) w =
      Some (after_reads (txfifo_not_empty L) (Suc n) w)"
    by (intro busy_wait_exit) (simp_all add: first_empty_at_def nth_read_empty_at)
  with n(2) show "busy_wait (txfifo_not_empty L) w = Some w'" by simp
qed

lemma send_task_returns_iff:
  "send_task L w \<noteq> None \<longleftrightarrow>
     (\<exists>n1 n2 n3.
        first_ack_at L n1 (usic (send_start L w)) \<and>
        first_ack_at L n2
          (usic (send_data L (after_reads (ack_not_received L) (Suc n1) (send_start L w)))) \<and>
        first_empty_at L n3
          (usic (send_flush L (after_reads (ack_not_received L) (Suc n2)
             (send_data L (after_reads (ack_not_received L) (Suc n1) (send_start L w)))))))"
  (is "?lhs \<longleftrightarrow> ?rhs")
proof
  assume ?lhs
  then obtain w' where "send_task L w = Some w'" by blast
  then obtain w1 w2 w3 where
    1: "busy_wait (ack_not_received L) (send_start L w) = Some w1" and
    2: "busy_wait (ack_not_received L) (send_data L w1) = Some w2" and
    3: "busy_wait (txfifo_not_empty L) (send_flush L w2) = Some w3"
    by (rule send_task_SomeD)
  from 1 obtain n1 where n1: "first_ack_at L n1 (usic (send_start L w))"
    "w1 = after_reads (ack_not_received L) (Suc n1) (send_start L w)"
    unfolding ack_wait_iff by blast
  from 2 obtain n2 where n2: "first_ack_at L n2 (usic (send_data L w1))"
    "w2 = after_reads (ack_not_received L) (Suc n2) (send_data L w1)"
    unfolding ack_wait_iff by blast
  from 3 obtain n3 where n3: "first_empty_at L n3 (usic (send_flush L w2))"
    unfolding fifo_wait_iff by blast
  from n1 n2 n3 show ?rhs by blast
next
  assume ?rhs
  then obtain n1 n2 n3 where
    n1: "first_ack_at L n1 (usic (send_start L w))" and
    n2: "first_ack_at L n2
          (usic (send_data L (after_reads (ack_not_received L) (Suc n1) (send_start L w))))" and
    n3: "first_empty_at L n3
          (usic (send_flush L (after_reads (ack_not_received L) (Suc n2)
             (send_data L (after_reads (ack_not_received L) (Suc n1) (send_start L w))))))"
    by blast
  let ?w1 = "after_reads (ack_not_received L) (Suc n1) (send_start L w)"
  let ?w2 = "after_reads (ack_not_received L) (Suc n2) (send_data L ?w1)"
  let ?w3 = "after_reads (txfifo_not_empty L) (Suc n3) (send_flush L ?w2)"
  have 1: "busy_wait (ack_not_received L) (send_start L w) = Some ?w1"
    unfolding ack_wait_iff using n1 by blast
  have 2: "busy_wait (ack_not_received L) (send_data L ?w1) = Some ?w2"
    unfolding ack_wait_iff using n2 by blast
  have 3: "busy_wait (txfifo_not_empty L) (send_flush L ?w2) = Some ?w3"
    unfolding fifo_wait_iff using n3 by blast
  have "send_task L w = Some (send_stop L ?w3)"
    unfolding send_task_def by (simp only: 1 2 3 option.case)
  then show ?lhs by simp
qed

lemma script_silent_reads:
  "after_reads (XMC_I2C_CH_GetStatusFlag script_lib I2C_MASTER_HW) n
     \<lparr>status_script = [], fifo_script = fs, rx_script = rs\<rparr> =
     \<lparr>status_script = [], fifo_script = fs, rx_script = rs\<rparr>"
  by (induction n) (simp_all add: script_lib_def)

lemma script_silent_no_ack:
  "\<not> ack_at script_lib n \<lparr>status_script = [], fifo_script = fs, rx_script = rs\<rparr>"
  by (simp add: ack_at_def nth_read_def script_silent_reads) (simp add: script_lib_def)

text \<open>
  C7. A send is due, and \<open>s0\<close> is the state after the command has been toggled and START
  issued. If no read of the status register ever finds the acknowledgement flag set, the
  handler does not return: the run stays in the first wait loop, whose states after any
  number \<open>n\<close> of reads have the counter still at 500 and a log made of START and \<open>n\<close> status
  reads, with no transmission and no STOP. And the handler returns exactly when each
  awaited flag is eventually set: the acknowledgement flag at some read of the first
  wait, again at some read of the second wait, and the FIFO-empty state at some read of
  the third.
\<close>

theorem sender_blocks_without_ack:
  assumes "SysTick_ticks w + 1 = I2C_MASTER_SEND_TASK_MS"
    and "s0 = send_start L (w\<lparr>SysTick_ticks := I2C_MASTER_SEND_TASK_MS\<rparr>)"
  shows
    "((\<forall>n. \<not> ack_at L n (usic s0)) \<longrightarrow>
        SysTick_Handler L w = None \<and>
        (\<forall>n. SysTick_ticks (after_reads (ack_not_received L) n s0) = I2C_MASTER_SEND_TASK_MS \<and>
             calls (after_reads (ack_not_received L) n s0) =
               calls w @
               MasterStart I2C_MASTER_HW (I2C_SLAVE_SLAVE_ADDRESS L) XMC_I2C_CH_CMD_WRITE #
               map (GetStatusFlag I2C_MASTER_HW)
                 (first_reads (XMC_I2C_CH_GetStatusFlag L I2C_MASTER_HW) n (usic s0)))) \<and>
     (SysTick_Handler L w \<noteq> None \<longleftrightarrow>
        (\<exists>n1 n2 n3.
           first_ack_at L n1 (usic s0) \<and>
           first_ack_at L n2
             (usic (send_data L (after_reads (ack_not_received L) (Suc n1) s0))) \<and>
           first_empty_at L n3
             (usic (send_flush L (after_reads (ack_not_received L) (Suc n2)
                (send_data L (after_reads (ack_not_received L) (Suc n1) s0)))))))"
proof -
  have handler: "SysTick_Handler L w = send_task L (w\<lparr>SysTick_ticks := I2C_MASTER_SEND_TASK_MS\<rparr>)"
    using assms(1) by (rule tick_send)
  have blocked: "SysTick_Handler L w = None" if "\<forall>n. \<not> ack_at L n (usic s0)"
  proof -
    from that have "busy_wait (ack_not_received L) s0 = None"
      by (simp add: busy_wait_None_iff nth_read_ack_at)
    then show ?thesis unfolding handler send_task_def assms(2) [symmetric] by simp
  qed
  have during: "SysTick_ticks (after_reads (ack_not_received L) n s0) = I2C_MASTER_SEND_TASK_MS \<and>
      calls (after_reads (ack_not_received L) n s0) =
        calls w @
        MasterStart I2C_MASTER_HW (I2C_SLAVE_SLAVE_ADDRESS L) XMC_I2C_CH_CMD_WRITE #
        map (GetStatusFlag I2C_MASTER_HW)
          (first_reads (XMC_I2C_CH_GetStatusFlag L I2C_MASTER_HW) n (usic s0))" for n
    unfolding after_reads_ack by (simp add: assms(2) send_start_def call_MasterStart_def)
  have returns: "SysTick_Handler L w \<noteq> None \<longleftrightarrow>
        (\<exists>n1 n2 n3.
           first_ack_at L n1 (usic s0) \<and>
           first_ack_at L n2
             (usic (send_data L (after_reads (ack_not_received L) (Suc n1) s0))) \<and>
           first_empty_at L n3
             (usic (send_flush L (after_reads (ack_not_received L) (Suc n2)
                (send_data L (after_reads (ack_not_received L) (Suc n1) s0))))))"
    unfolding handler assms(2) by (rule send_task_returns_iff)
  from blocked during returns show ?thesis by blast
qed

theorem sender_blocks_without_ack_witness:
  "SysTick_ticks script_silent + 1 = I2C_MASTER_SEND_TASK_MS \<and>
   (\<forall>n. \<not> ack_at script_lib n
      (usic (send_start script_lib (script_silent\<lparr>SysTick_ticks := I2C_MASTER_SEND_TASK_MS\<rparr>)))) \<and>
   SysTick_Handler script_lib script_silent = None \<and>
   SysTick_ticks script_due + 1 = I2C_MASTER_SEND_TASK_MS \<and>
   SysTick_Handler script_lib script_due = Some script_sent \<and>
   (\<exists>n1 n2 n3.
      first_ack_at script_lib n1
        (usic (send_start script_lib (script_due\<lparr>SysTick_ticks := I2C_MASTER_SEND_TASK_MS\<rparr>))) \<and>
      first_ack_at script_lib n2
        (usic (send_data script_lib (after_reads (ack_not_received script_lib) (Suc n1)
           (send_start script_lib (script_due\<lparr>SysTick_ticks := I2C_MASTER_SEND_TASK_MS\<rparr>))))) \<and>
      first_empty_at script_lib n3
        (usic (send_flush script_lib (after_reads (ack_not_received script_lib) (Suc n2)
           (send_data script_lib (after_reads (ack_not_received script_lib) (Suc n1)
              (send_start script_lib
                 (script_due\<lparr>SysTick_ticks := I2C_MASTER_SEND_TASK_MS\<rparr>))))))))"
proof -
  have due: "SysTick_ticks script_silent + 1 = I2C_MASTER_SEND_TASK_MS"
    by (simp add: script_silent_def script_world_def I2C_MASTER_SEND_TASK_MS_def)
  have "usic (send_start script_lib (script_silent\<lparr>SysTick_ticks := I2C_MASTER_SEND_TASK_MS\<rparr>)) =
      \<lparr>status_script = [], fifo_script = [], rx_script = []\<rparr>"
    by (simp add: send_start_def call_MasterStart_def script_silent_def script_world_def
        script_lib_def)
  then have silent: "\<forall>n. \<not> ack_at script_lib n
      (usic (send_start script_lib (script_silent\<lparr>SysTick_ticks := I2C_MASTER_SEND_TASK_MS\<rparr>)))"
    by (simp add: script_silent_no_ack)
  from sender_blocks_without_ack [OF due refl, of script_lib] silent
  have none: "SysTick_Handler script_lib script_silent = None" by blast
  from script_send have "SysTick_Handler script_lib script_due \<noteq> None" by simp
  with sender_blocks_without_ack [OF script_due_ticks refl, of script_lib]
  have "\<exists>n1 n2 n3.
      first_ack_at script_lib n1
        (usic (send_start script_lib (script_due\<lparr>SysTick_ticks := I2C_MASTER_SEND_TASK_MS\<rparr>))) \<and>
      first_ack_at script_lib n2
        (usic (send_data script_lib (after_reads (ack_not_received script_lib) (Suc n1)
           (send_start script_lib (script_due\<lparr>SysTick_ticks := I2C_MASTER_SEND_TASK_MS\<rparr>))))) \<and>
      first_empty_at script_lib n3
        (usic (send_flush script_lib (after_reads (ack_not_received script_lib) (Suc n2)
           (send_data script_lib (after_reads (ack_not_received script_lib) (Suc n1)
              (send_start script_lib
                 (script_due\<lparr>SysTick_ticks := I2C_MASTER_SEND_TASK_MS\<rparr>)))))))"
    by blast
  with due silent none script_due_ticks script_send show ?thesis by (intro conjI)
qed

section \<open>The command receiver\<close>

text \<open>
  C2. For every byte delivered to the command receiver: the byte 0xAA drives the pin to
  logic-high, the byte 0x55 drives it to logic-low, and any other byte leaves the pin as
  it was. The handler reads the byte and makes at most one more call, the one that sets
  the pin; for any other byte it makes none, and no error exists.
\<close>

theorem receiver_maps_byte_to_level:
  "led_pin (I2C_SLAVE_RECEIVE_EVENT_HANDLER L w) =
     (if received_byte L w = 0xAA then True
      else if received_byte L w = 0x55 then False
      else led_pin w) \<and>
   calls (I2C_SLAVE_RECEIVE_EVENT_HANDLER L w) =
     calls w @ GetReceivedData I2C_SLAVE_HW (received_byte L w) #
       (if received_byte L w = 0xAA then [SetOutputHigh]
        else if received_byte L w = 0x55 then [SetOutputLow]
        else [])"
proof (cases "XMC_I2C_CH_GetReceivedData L I2C_SLAVE_HW (usic w)")
  case (Pair d h)
  then show ?thesis
    by (simp add: I2C_SLAVE_RECEIVE_EVENT_HANDLER_def received_byte_def
        call_GetReceivedData_def XMC_GPIO_SetOutputHigh_def XMC_GPIO_SetOutputLow_def
        CMD_LED_HIGH_def CMD_LED_LOW_def)
qed

theorem receiver_maps_byte_to_level_witness:
  "led_pin (I2C_SLAVE_RECEIVE_EVENT_HANDLER script_lib (script_world 0 0x55 [] [] [0xAA])) \<and>
   \<not> led_pin (I2C_SLAVE_RECEIVE_EVENT_HANDLER script_lib
      ((script_world 0 0x55 [] [] [0x55])\<lparr>led_pin := True\<rparr>)) \<and>
   led_pin (I2C_SLAVE_RECEIVE_EVENT_HANDLER script_lib
      ((script_world 0 0x55 [] [] [0x12])\<lparr>led_pin := True\<rparr>)) \<and>
   \<not> led_pin (I2C_SLAVE_RECEIVE_EVENT_HANDLER script_lib (script_world 0 0x55 [] [] [0x12]))"
  using receiver_maps_byte_to_level [of script_lib "script_world 0 0x55 [] [] [0xAA]"]
    receiver_maps_byte_to_level
      [of script_lib "(script_world 0 0x55 [] [] [0x55])\<lparr>led_pin := True\<rparr>"]
    receiver_maps_byte_to_level
      [of script_lib "(script_world 0 0x55 [] [] [0x12])\<lparr>led_pin := True\<rparr>"]
    receiver_maps_byte_to_level [of script_lib "script_world 0 0x55 [] [] [0x12]"]
  by (simp add: received_byte_def script_lib_def script_world_def)

lemma receiver_led_pin:
  "led_pin (I2C_SLAVE_RECEIVE_EVENT_HANDLER L w) =
     (if received_byte L w = CMD_LED_HIGH then True
      else if received_byte L w = CMD_LED_LOW then False
      else led_pin w)"
  by (cases "XMC_I2C_CH_GetReceivedData L I2C_SLAVE_HW (usic w)")
     (simp add: I2C_SLAVE_RECEIVE_EVENT_HANDLER_def received_byte_def call_GetReceivedData_def
       XMC_GPIO_SetOutputHigh_def XMC_GPIO_SetOutputLow_def)

text \<open>
  C6. The receiver is idempotent per command: when two receive events in a row deliver the
  same byte, the pin has the same level after the second as after the first. The handler
  keeps no state of its own and sets the level from the byte alone.
\<close>

theorem receiver_idempotent:
  assumes "received_byte L w = b"
    and "received_byte L (I2C_SLAVE_RECEIVE_EVENT_HANDLER L w) = b"
  shows "led_pin (I2C_SLAVE_RECEIVE_EVENT_HANDLER L (I2C_SLAVE_RECEIVE_EVENT_HANDLER L w)) =
         led_pin (I2C_SLAVE_RECEIVE_EVENT_HANDLER L w)"
  using assms by (simp add: receiver_led_pin)

theorem receiver_idempotent_witness:
  "received_byte script_lib (script_world 0 0x55 [] [] [0xAA, 0xAA]) = 0xAA \<and>
   received_byte script_lib
     (I2C_SLAVE_RECEIVE_EVENT_HANDLER script_lib (script_world 0 0x55 [] [] [0xAA, 0xAA])) = 0xAA \<and>
   led_pin (I2C_SLAVE_RECEIVE_EVENT_HANDLER script_lib
     (I2C_SLAVE_RECEIVE_EVENT_HANDLER script_lib (script_world 0 0x55 [] [] [0xAA, 0xAA]))) =
   led_pin (I2C_SLAVE_RECEIVE_EVENT_HANDLER script_lib (script_world 0 0x55 [] [] [0xAA, 0xAA])) \<and>
   led_pin (I2C_SLAVE_RECEIVE_EVENT_HANDLER script_lib (script_world 0 0x55 [] [] [0xAA, 0xAA]))"
proof -
  have 1: "received_byte script_lib (script_world 0 0x55 [] [] [0xAA, 0xAA]) = 0xAA"
    by code_simp
  have 2: "received_byte script_lib
     (I2C_SLAVE_RECEIVE_EVENT_HANDLER script_lib (script_world 0 0x55 [] [] [0xAA, 0xAA])) = 0xAA"
    by code_simp
  have 3: "led_pin (I2C_SLAVE_RECEIVE_EVENT_HANDLER script_lib (script_world 0 0x55 [] [] [0xAA, 0xAA]))"
    by code_simp
  from 1 2 3 receiver_idempotent [OF 1 2] show ?thesis by (intro conjI)
qed

section \<open>Executions from power-on\<close>

lemma transmitted_append: "transmitted (xs @ ys) = transmitted xs @ transmitted ys"
  by (induction xs rule: transmitted.induct) simp_all

lemma transmitted_status_reads: "transmitted (map (GetStatusFlag ch) vs) = []"
  by (induction vs) simp_all

lemma transmitted_fifo_reads: "transmitted (map (TXFIFO_IsEmpty ch) es) = []"
  by (induction es) simp_all

lemma receiver_effect:
  "\<exists>h l cs. I2C_SLAVE_RECEIVE_EVENT_HANDLER L w =
       w\<lparr>usic := h, led_pin := l, calls := calls w @ cs\<rparr> \<and> transmitted cs = []"
proof (cases "XMC_I2C_CH_GetReceivedData L I2C_SLAVE_HW (usic w)")
  case (Pair d h)
  let ?cs = "GetReceivedData I2C_SLAVE_HW d #
    (if d = CMD_LED_HIGH then [SetOutputHigh] else if d = CMD_LED_LOW then [SetOutputLow] else [])"
  let ?l = "if d = CMD_LED_HIGH then True else if d = CMD_LED_LOW then False else led_pin w"
  have "I2C_SLAVE_RECEIVE_EVENT_HANDLER L w = w\<lparr>usic := h, led_pin := ?l, calls := calls w @ ?cs\<rparr>"
    using Pair
    by (simp add: I2C_SLAVE_RECEIVE_EVENT_HANDLER_def call_GetReceivedData_def
        XMC_GPIO_SetOutputHigh_def XMC_GPIO_SetOutputLow_def)
  moreover have "transmitted ?cs = []" by simp
  ultimately show ?thesis by blast
qed

lemma toggle_command_simps:
  "toggle_command CMD_LED_LOW = CMD_LED_HIGH" "toggle_command CMD_LED_HIGH = CMD_LED_LOW"
  by (simp_all add: toggle_command_def CMD_LED_LOW_def CMD_LED_HIGH_def)

lemma sender_after_power_on: "sender_after 0 (power_on h l)"
  by (simp add: sender_after_def power_on_def)

lemma sender_after_receive:
  assumes "sender_after t w"
  shows "sender_after t (I2C_SLAVE_RECEIVE_EVENT_HANDLER L w)"
proof -
  from receiver_effect [of L w] obtain h l cs where
    "I2C_SLAVE_RECEIVE_EVENT_HANDLER L w = w\<lparr>usic := h, led_pin := l, calls := calls w @ cs\<rparr>"
    "transmitted cs = []" by blast
  with assms show ?thesis by (simp add: sender_after_def transmitted_append)
qed

lemma sender_after_tick:
  assumes "sender_after t w" and "SysTick_Handler L w = Some w'"
  shows "sender_after (Suc t) w'"
proof (cases "t mod 500 = 499")
  case True
  then have m: "Suc t mod 500 = 0" and d: "Suc t div 500 = Suc (t div 500)"
    by (simp_all add: mod_Suc div_Suc)
  from assms(1) True have "SysTick_ticks w + 1 = I2C_MASTER_SEND_TASK_MS"
    by (simp add: sender_after_def I2C_MASTER_SEND_TASK_MS_def)
  with assms(2) have "send_task L (w\<lparr>SysTick_ticks := I2C_MASTER_SEND_TASK_MS\<rparr>) = Some w'"
    by (simp add: tick_send)
  from send_task_effect [OF this] obtain vs1 vs2 es h where
    w': "w' = w\<lparr>SysTick_ticks := I2C_MASTER_SEND_TASK_MS,
            tx_master_send := toggle_command (tx_master_send w),
            SysTick_ticks := 0,
            usic := h,
            calls := calls w @
              [MasterStart I2C_MASTER_HW (I2C_SLAVE_SLAVE_ADDRESS L) XMC_I2C_CH_CMD_WRITE] @
              map (GetStatusFlag I2C_MASTER_HW) vs1 @
              [ClearStatusFlag I2C_MASTER_HW (XMC_I2C_CH_STATUS_FLAG_ACK_RECEIVED L),
               MasterTransmit I2C_MASTER_HW (toggle_command (tx_master_send w))] @
              map (GetStatusFlag I2C_MASTER_HW) vs2 @
              [ClearStatusFlag I2C_MASTER_HW (XMC_I2C_CH_STATUS_FLAG_ACK_RECEIVED L)] @
              map (TXFIFO_IsEmpty I2C_MASTER_HW) es @
              [MasterStop I2C_MASTER_HW]\<rparr>"
    by auto
  have tx: "tx_master_send w' = toggle_command (tx_master_send w)"
    and ticks: "SysTick_ticks w' = 0"
    and sent: "transmitted (calls w') = transmitted (calls w) @ [toggle_command (tx_master_send w)]"
    unfolding w' by (simp_all add: transmitted_append transmitted_status_reads transmitted_fifo_reads)
  have next_cmd: "toggle_command (tx_master_send w) =
      (if odd (Suc (t div 500)) then CMD_LED_HIGH else CMD_LED_LOW)"
    using assms(1) by (simp add: sender_after_def toggle_command_simps)
  show ?thesis
    unfolding sender_after_def m d
    using assms(1) tx ticks sent next_cmd by (simp add: sender_after_def)
next
  case False
  then have m: "Suc t mod 500 = Suc (t mod 500)" and d: "Suc t div 500 = t div 500"
    by (simp_all add: mod_Suc div_Suc)
  have "t mod 500 < 500" by simp
  with False have "Suc (t mod 500) < 500" by linarith
  then have below: "(of_nat (Suc (t mod 500)) :: 32 word) \<noteq> I2C_MASTER_SEND_TASK_MS"
    by (rule of_nat_below_threshold)
  have eq: "SysTick_ticks w + 1 = of_nat (Suc (t mod 500))"
    using assms(1) by (simp add: sender_after_def)
  from below have neq: "SysTick_ticks w + 1 \<noteq> I2C_MASTER_SEND_TASK_MS" unfolding eq .
  from tick_idle [OF neq, of L] assms(2) have "w' = w\<lparr>SysTick_ticks := SysTick_ticks w + 1\<rparr>"
    by simp
  then show ?thesis
    unfolding sender_after_def m d using assms(1) eq by (simp add: sender_after_def)
qed

lemma sender_after_run:
  assumes "sender_after t w" and "run L evs w = Some w'"
  shows "sender_after (t + count_list evs SysTick_IRQn) w'"
  using assms
proof (induction evs arbitrary: t w)
  case Nil
  then show ?case by simp
next
  case (Cons e evs)
  from Cons.prems(2) obtain w1 where
    step: "dispatch L e w = Some w1" and rest: "run L evs w1 = Some w'"
    by (auto split: option.splits)
  show ?case
  proof (cases e)
    case SysTick_IRQn
    with step Cons.prems(1) have "sender_after (Suc t) w1"
      by (auto intro: sender_after_tick)
    from Cons.IH [OF this rest] SysTick_IRQn show ?thesis by simp
  next
    case I2C_SLAVE_RECEIVE_EVENT_IRQN
    with step Cons.prems(1) have "sender_after t w1"
      by (auto intro: sender_after_receive)
    from Cons.IH [OF this rest] I2C_SLAVE_RECEIVE_EVENT_IRQN show ?thesis by simp
  qed
qed

text \<open>
  C1. In every execution from the initial state (stored command \<open>CMD_LED_LOW\<close>, 0x55, and
  counter 0), whatever the hardware does and however receive interrupts are interleaved,
  the command bytes transmitted so far alternate: command number \<open>N\<close>, counted from 1, is
  0xAA when \<open>N\<close> is odd and 0x55 when \<open>N\<close> is even. One command is transmitted for every
  500 timer interrupts.
\<close>

theorem commands_alternate:
  assumes "run L evs (power_on h l) = Some w"
  shows "length (transmitted (calls w)) = count_list evs SysTick_IRQn div 500 \<and>
    (\<forall>N. 1 \<le> N \<and> N \<le> length (transmitted (calls w)) \<longrightarrow>
       transmitted (calls w) ! (N - 1) = (if odd N then 0xAA else 0x55))"
proof -
  let ?k = "count_list evs SysTick_IRQn div 500"
  from sender_after_run [OF sender_after_power_on assms]
  have sent: "transmitted (calls w) =
      map (\<lambda>N. if odd N then CMD_LED_HIGH else CMD_LED_LOW) [1..<Suc ?k]"
    by (simp add: sender_after_def)
  then have len: "length (transmitted (calls w)) = ?k" by simp
  have "transmitted (calls w) ! (N - 1) = (if odd N then 0xAA else 0x55)"
    if "1 \<le> N" "N \<le> length (transmitted (calls w))" for N
  proof -
    from that len have "N - 1 < length [1..<Suc ?k]" by simp
    then have "transmitted (calls w) ! (N - 1) =
        (\<lambda>N. if odd N then CMD_LED_HIGH else CMD_LED_LOW) ([1..<Suc ?k] ! (N - 1))"
      unfolding sent by (rule nth_map)
    also have "[1..<Suc ?k] ! (N - 1) = N"
      using that len nth_upt [of 1 "N - 1" "Suc ?k"] by (simp del: upt_Suc)
    finally show ?thesis by (simp add: CMD_LED_HIGH_def CMD_LED_LOW_def)
  qed
  with len show ?thesis by blast
qed

theorem commands_alternate_witness:
  "\<exists>w. run script_lib script_irqs script_power_on = Some w \<and>
     length (transmitted (calls w)) = 2 \<and>
     transmitted (calls w) ! 0 = 0xAA \<and> transmitted (calls w) ! 1 = 0x55"
proof -
  have "run script_lib script_irqs script_power_on \<noteq> None" by code_simp
  then obtain w where
    h: "run script_lib script_irqs
          (power_on \<lparr>status_script = [0x200, 0x200, 0x200, 0x200], fifo_script = [],
                     rx_script = [0xAA]\<rparr> False) = Some w"
    unfolding script_power_on_def by blast
  have n: "count_list script_irqs SysTick_IRQn = 1000" by code_simp
  from commands_alternate [OF h] n
  have len: "length (transmitted (calls w)) = 2"
    and nth: "\<And>N. 1 \<le> N \<and> N \<le> 2 \<Longrightarrow>
      transmitted (calls w) ! (N - 1) = (if odd N then 0xAA else 0x55)"
    by simp_all
  from nth [of 1] nth [of 2] have "transmitted (calls w) ! 0 = 0xAA"
    "transmitted (calls w) ! 1 = 0x55" by simp_all
  with h len show ?thesis unfolding script_power_on_def by blast
qed

section \<open>What each handler leaves alone\<close>

lemma busy_wait_commute:
  assumes c: "\<And>s. c (f s) = (fst (c s), f (snd (c s)))"
  shows "busy_wait c (f s) = map_option f (busy_wait c s)"
proof -
  have ar: "after_reads c n (f s) = f (after_reads c n s)" for n s
    by (induction n arbitrary: s) (simp_all add: c)
  have nr: "nth_read c n (f s) = nth_read c n s" for n s
    by (simp add: nth_read_def ar c)
  show ?thesis
  proof (cases "busy_wait c s")
    case None
    then have "\<forall>n. nth_read c n (f s)" by (simp add: busy_wait_None_iff nr)
    then have "busy_wait c (f s) = None" by (simp add: busy_wait_None_iff)
    with None show ?thesis by simp
  next
    case (Some s')
    from busy_wait_Some [OF this] obtain n where
      n: "\<not> nth_read c n s" "\<forall>m<n. nth_read c m s" "s' = after_reads c (Suc n) s" by blast
    have "busy_wait c (f s) = Some (after_reads c (Suc n) (f s))"
      using n(1,2) by (intro busy_wait_exit) (simp_all add: nr)
    with Some n(3) show ?thesis by (simp only: ar option.map)
  qed
qed

lemma send_task_commute:
  assumes start: "\<And>w. send_start L (f w) = f (send_start L w)"
    and data: "\<And>w. send_data L (f w) = f (send_data L w)"
    and flush: "\<And>w. send_flush L (f w) = f (send_flush L w)"
    and stop: "\<And>w. send_stop L (f w) = f (send_stop L w)"
    and ack: "\<And>w. ack_not_received L (f w) =
       (fst (ack_not_received L w), f (snd (ack_not_received L w)))"
    and fifo: "\<And>w. txfifo_not_empty L (f w) =
       (fst (txfifo_not_empty L w), f (snd (txfifo_not_empty L w)))"
  shows "send_task L (f w) = map_option f (send_task L w)"
  unfolding send_task_def
  by (simp add: start data flush stop busy_wait_commute [of "ack_not_received L" f, OF ack]
      busy_wait_commute [of "txfifo_not_empty L" f, OF fifo] split: option.split)

lemma send_task_ticks:
  "send_task L (w\<lparr>ticks := v\<rparr>) = map_option (\<lambda>w'. w'\<lparr>ticks := v\<rparr>) (send_task L w)"
  by (rule send_task_commute)
     (simp_all add: send_start_def send_data_def send_flush_def send_stop_def Let_def
       call_MasterStart_def call_ClearStatusFlag_def call_MasterTransmit_def call_MasterStop_def
       ack_not_received_eq txfifo_not_empty_eq)

lemma send_task_led_pin:
  "send_task L (w\<lparr>led_pin := b\<rparr>) = map_option (\<lambda>w'. w'\<lparr>led_pin := b\<rparr>) (send_task L w)"
  by (rule send_task_commute)
     (simp_all add: send_start_def send_data_def send_flush_def send_stop_def Let_def
       call_MasterStart_def call_ClearStatusFlag_def call_MasterTransmit_def call_MasterStop_def
       ack_not_received_eq txfifo_not_empty_eq)

lemma swap_ticks:
  "w\<lparr>ticks := v, SysTick_ticks := t\<rparr> = w\<lparr>SysTick_ticks := t, ticks := v\<rparr>"
  by (cases w) simp

lemma swap_led_pin:
  "w\<lparr>led_pin := b, SysTick_ticks := t\<rparr> = w\<lparr>SysTick_ticks := t, led_pin := b\<rparr>"
  by (cases w) simp

lemma SysTick_Handler_ticks:
  "SysTick_Handler L (w\<lparr>ticks := v\<rparr>) = map_option (\<lambda>w'. w'\<lparr>ticks := v\<rparr>) (SysTick_Handler L w)"
proof (cases "SysTick_ticks w + 1 = I2C_MASTER_SEND_TASK_MS")
  case True
  have "SysTick_Handler L (w\<lparr>ticks := v\<rparr>) =
      send_task L ((w\<lparr>SysTick_ticks := I2C_MASTER_SEND_TASK_MS\<rparr>)\<lparr>ticks := v\<rparr>)"
    using True by (simp add: SysTick_Handler_def Let_def swap_ticks)
  also have "\<dots> = map_option (\<lambda>w'. w'\<lparr>ticks := v\<rparr>)
      (send_task L (w\<lparr>SysTick_ticks := I2C_MASTER_SEND_TASK_MS\<rparr>))"
    by (rule send_task_ticks)
  also have "\<dots> = map_option (\<lambda>w'. w'\<lparr>ticks := v\<rparr>) (SysTick_Handler L w)"
    using True by (simp add: tick_send)
  finally show ?thesis .
next
  case False
  then show ?thesis by (simp add: SysTick_Handler_def Let_def)
qed

lemma SysTick_Handler_led_pin:
  "SysTick_Handler L (w\<lparr>led_pin := b\<rparr>) =
     map_option (\<lambda>w'. w'\<lparr>led_pin := b\<rparr>) (SysTick_Handler L w)"
proof (cases "SysTick_ticks w + 1 = I2C_MASTER_SEND_TASK_MS")
  case True
  have "SysTick_Handler L (w\<lparr>led_pin := b\<rparr>) =
      send_task L ((w\<lparr>SysTick_ticks := I2C_MASTER_SEND_TASK_MS\<rparr>)\<lparr>led_pin := b\<rparr>)"
    using True by (simp add: SysTick_Handler_def Let_def swap_led_pin)
  also have "\<dots> = map_option (\<lambda>w'. w'\<lparr>led_pin := b\<rparr>)
      (send_task L (w\<lparr>SysTick_ticks := I2C_MASTER_SEND_TASK_MS\<rparr>))"
    by (rule send_task_led_pin)
  also have "\<dots> = map_option (\<lambda>w'. w'\<lparr>led_pin := b\<rparr>) (SysTick_Handler L w)"
    using True by (simp add: tick_send)
  finally show ?thesis .
next
  case False
  then show ?thesis by (simp add: SysTick_Handler_def Let_def)
qed

lemma receiver_ticks:
  "I2C_SLAVE_RECEIVE_EVENT_HANDLER L (w\<lparr>ticks := v\<rparr>) =
     (I2C_SLAVE_RECEIVE_EVENT_HANDLER L w)\<lparr>ticks := v\<rparr>"
  by (cases "XMC_I2C_CH_GetReceivedData L I2C_SLAVE_HW (usic w)")
     (simp add: I2C_SLAVE_RECEIVE_EVENT_HANDLER_def call_GetReceivedData_def
       XMC_GPIO_SetOutputHigh_def XMC_GPIO_SetOutputLow_def)

lemma receiver_sender_vars:
  "I2C_SLAVE_RECEIVE_EVENT_HANDLER L (w\<lparr>tx_master_send := c, SysTick_ticks := t\<rparr>) =
     (I2C_SLAVE_RECEIVE_EVENT_HANDLER L w)\<lparr>tx_master_send := c, SysTick_ticks := t\<rparr>"
  by (cases "XMC_I2C_CH_GetReceivedData L I2C_SLAVE_HW (usic w)")
     (simp add: I2C_SLAVE_RECEIVE_EVENT_HANDLER_def call_GetReceivedData_def
       XMC_GPIO_SetOutputHigh_def XMC_GPIO_SetOutputLow_def)

lemma run_ticks:
  "run L evs (w\<lparr>ticks := v\<rparr>) = map_option (\<lambda>w'. w'\<lparr>ticks := v\<rparr>) (run L evs w)"
proof (induction evs arbitrary: w)
  case Nil
  show ?case by simp
next
  case (Cons e evs)
  show ?case
  proof (cases e)
    case SysTick_IRQn
    then show ?thesis
      by (cases "SysTick_Handler L w") (simp_all add: SysTick_Handler_ticks Cons.IH)
  next
    case I2C_SLAVE_RECEIVE_EVENT_IRQN
    then show ?thesis by (simp add: receiver_ticks Cons.IH)
  qed
qed

lemma no_gpio_status_reads: "filter is_gpio_call (map (GetStatusFlag ch) vs) = []"
  by (induction vs) simp_all

lemma no_gpio_fifo_reads: "filter is_gpio_call (map (TXFIFO_IsEmpty ch) es) = []"
  by (induction es) simp_all

lemma sender_keeps_gpio:
  assumes "SysTick_Handler L w = Some w'"
  shows "led_pin w' = led_pin w \<and>
         filter is_gpio_call (calls w') = filter is_gpio_call (calls w)"
proof (cases "SysTick_ticks w + 1 = I2C_MASTER_SEND_TASK_MS")
  case True
  with assms have "send_task L (w\<lparr>SysTick_ticks := I2C_MASTER_SEND_TASK_MS\<rparr>) = Some w'"
    by (simp add: tick_send)
  from send_task_effect [OF this] show ?thesis
    by (auto simp: no_gpio_status_reads no_gpio_fifo_reads)
next
  case False
  from tick_idle [OF False, of L] assms show ?thesis by auto
qed

text \<open>
  C9. The state of the sender and the state of the receiver are disjoint. The receiver
  neither writes nor reads the stored command and the tick counter: they are unchanged
  by it, and with other values in them it does the same. The sender neither writes nor
  reads the LED pin: when it returns, the pin level is unchanged and it has made no GPIO
  call, and with another pin level it does the same, also in whether it returns.
\<close>

theorem sender_receiver_disjoint:
  "tx_master_send (I2C_SLAVE_RECEIVE_EVENT_HANDLER L w) = tx_master_send w \<and>
   SysTick_ticks (I2C_SLAVE_RECEIVE_EVENT_HANDLER L w) = SysTick_ticks w \<and>
   I2C_SLAVE_RECEIVE_EVENT_HANDLER L (w\<lparr>tx_master_send := c, SysTick_ticks := t\<rparr>) =
     (I2C_SLAVE_RECEIVE_EVENT_HANDLER L w)\<lparr>tx_master_send := c, SysTick_ticks := t\<rparr> \<and>
   (\<forall>w'. SysTick_Handler L w = Some w' \<longrightarrow>
      led_pin w' = led_pin w \<and>
      filter is_gpio_call (calls w') = filter is_gpio_call (calls w)) \<and>
   SysTick_Handler L (w\<lparr>led_pin := b\<rparr>) =
     map_option (\<lambda>w'. w'\<lparr>led_pin := b\<rparr>) (SysTick_Handler L w)"
proof -
  from receiver_effect [of L w] obtain h l cs where
    "I2C_SLAVE_RECEIVE_EVENT_HANDLER L w = w\<lparr>usic := h, led_pin := l, calls := calls w @ cs\<rparr>"
    by blast
  then have "tx_master_send (I2C_SLAVE_RECEIVE_EVENT_HANDLER L w) = tx_master_send w"
    and "SysTick_ticks (I2C_SLAVE_RECEIVE_EVENT_HANDLER L w) = SysTick_ticks w"
    by simp_all
  then show ?thesis
    using sender_keeps_gpio [of L w]
    by (simp add: receiver_sender_vars SysTick_Handler_led_pin)
qed

theorem sender_receiver_disjoint_witness:
  "SysTick_Handler script_lib script_due = Some script_sent \<and>
   led_pin script_sent = led_pin script_due \<and>
   filter is_gpio_call (calls script_sent) = filter is_gpio_call (calls script_due) \<and>
   tx_master_send (I2C_SLAVE_RECEIVE_EVENT_HANDLER script_lib script_due) = 0x55 \<and>
   SysTick_ticks (I2C_SLAVE_RECEIVE_EVENT_HANDLER script_lib script_due) = 499"
  using script_send
    sender_receiver_disjoint [of script_lib script_due "0x55" 499 False]
  by (simp add: script_due_def script_world_def)

text \<open>
  C10. The file-scope variable \<open>ticks\<close> of line 69 is shadowed inside \<open>SysTick_Handler\<close> and
  no handler writes or reads it: it is 0 in every state reached from power-on, and an
  execution started with any other value in it does the same, also in whether it
  returns, and leaves that value in place.
\<close>

theorem file_scope_ticks_unused:
  "(run L evs (power_on h l) = Some w \<longrightarrow> ticks w = 0) \<and>
   run L evs (w0\<lparr>ticks := v\<rparr>) = map_option (\<lambda>w'. w'\<lparr>ticks := v\<rparr>) (run L evs w0)"
proof -
  have "ticks w = 0" if "run L evs (power_on h l) = Some w"
  proof -
    from that have "Some w = map_option (\<lambda>w'. w'\<lparr>ticks := 0\<rparr>) (Some w)"
      using run_ticks [where w = "power_on h l" and v = 0 and L = L and evs = evs]
      by (simp add: power_on_def)
    then have "ticks w = ticks (w\<lparr>ticks := 0\<rparr>)" by simp
    then show ?thesis by simp
  qed
  then show ?thesis by (simp add: run_ticks)
qed


theorem file_scope_ticks_unused_witness:
  "\<exists>w. run script_lib [I2C_SLAVE_RECEIVE_EVENT_IRQN, SysTick_IRQn] script_power_on = Some w \<and>
     ticks w = 0"
proof -
  have "run script_lib [I2C_SLAVE_RECEIVE_EVENT_IRQN, SysTick_IRQn] script_power_on \<noteq> None"
    by code_simp
  then obtain w where
    h: "run script_lib [I2C_SLAVE_RECEIVE_EVENT_IRQN, SysTick_IRQn]
          (power_on \<lparr>status_script = [0x200, 0x200, 0x200, 0x200], fifo_script = [],
                     rx_script = [0xAA]\<rparr> False) = Some w"
    unfolding script_power_on_def by blast
  from file_scope_ticks_unused [of script_lib "[I2C_SLAVE_RECEIVE_EVENT_IRQN, SysTick_IRQn]"
      "\<lparr>status_script = [0x200, 0x200, 0x200, 0x200], fifo_script = [], rx_script = [0xAA]\<rparr>"
      False w] h
  have "ticks w = 0" by blast
  with h show ?thesis unfolding script_power_on_def by blast
qed

section \<open>main\<close>

text \<open>
  C8. If the initialisation call returns anything but success, \<open>main\<close> halts in the
  assertion right after it: the interrupt priority is not set, the receive interrupt is
  not enabled and the system timer is not started. If it returns success, no assertion
  fires and these three steps run, in this order, before \<open>main\<close> idles.
\<close>

theorem init_failure_halts:
  "(cybsp_init P \<noteq> CY_RSLT_SUCCESS P \<longrightarrow> main P = ([Cybsp_init], Halted_in_assert)) \<and>
   (cybsp_init P = CY_RSLT_SUCCESS P \<longrightarrow>
      main P =
        ([Cybsp_init,
          NVIC_SetPriority I2C_SLAVE_RECEIVE_EVENT_IRQN
            (NVIC_EncodePriority P (NVIC_GetPriorityGrouping P) 63 0),
          NVIC_EnableIRQ I2C_SLAVE_RECEIVE_EVENT_IRQN,
          SysTick_Config (SystemCoreClock P div 1000)],
         Idle_in_while))"
  by (simp add: main_def Let_def CY_ASSERT_halts_def I2C_RECEIVE_EVENT_PRIORITY_def
      TICKS_PER_SECOND_def)

theorem init_failure_halts_witness:
  "cybsp_init (script_platform 1) \<noteq> CY_RSLT_SUCCESS (script_platform 1) \<and>
   main (script_platform 1) = ([Cybsp_init], Halted_in_assert) \<and>
   cybsp_init (script_platform 0) = CY_RSLT_SUCCESS (script_platform 0) \<and>
   main (script_platform 0) =
     ([Cybsp_init, NVIC_SetPriority I2C_SLAVE_RECEIVE_EVENT_IRQN 63,
       NVIC_EnableIRQ I2C_SLAVE_RECEIVE_EVENT_IRQN, SysTick_Config 144000],
      Idle_in_while)"
  using init_failure_halts [of "script_platform 1"] init_failure_halts [of "script_platform 0"]
  by (simp add: script_platform_def)

end
